theory Spec2Isabelle
  imports Complex_Main "HOL-Library.Sublist"
begin

section \<open>JavaScript values\<close>

text \<open>
  Strings are lists of 8-bit characters, and as long as the functions make them: the limit
  an engine puts on the length of a string is not enforced.

  A number is \<open>NaN\<close>, an infinity, or finite; a finite number is given by its value, a
  rational (every double is one, and \<open>-0\<close> is 0). What the engine computes with the
  safe integers, the whole numbers of magnitude below \<open>2^53\<close>, is exact and written
  out here. What it computes with the other finite numbers depends on how doubles are
  rounded and printed, and is left to the engine.
\<close>

datatype jsnum = NaN | PInf | NInf | Fin rat

definition safe_integer :: "rat \<Rightarrow> bool" where
  "safe_integer r = (r = of_int \<lfloor>r\<rfloor> \<and> \<bar>r\<bar> < 2 ^ 53)"

text \<open>
  The engine's side of the numbers: \<open>Number(s)\<close> on a string; \<open>String(r)\<close> and
  \<open>r + 1\<close> for a finite number \<open>r\<close> that is no safe integer; and the longest string
  it builds, for the statements that are about strings within that limit.
\<close>

record numerics =
  toNumber :: "string \<Rightarrow> jsnum"
  numberText :: "rat \<Rightarrow> string"
  plusOne :: "rat \<Rightarrow> jsnum"
  maxStringLength :: nat

text \<open>A \<open>Date\<close> object, read through the four getters the code calls on it
  (\<open>getMonth\<close> counts from 0; \<open>getTime\<close> is what \<open>Number(date)\<close> returns).\<close>

datatype date = Date (getFullYear: int) (getMonth: int) (getDate: int) (getTime: int)

text \<open>
  What a caller hands to the XML builder as element content: nothing (\<open>undefined\<close>,
  \<open>null\<close>), a scalar, or an array of \<open>[name, data]\<close> items.
\<close>

datatype xdata =
    Undefined
  | Null
  | BoolV bool
  | NumV jsnum
  | StrV string
  | DateV date
  | ArrV "(string \<times> xdata) list"

text \<open>The first argument of \<open>wrapWithElement\<close>: an element name, or an array of items.\<close>

datatype name_arg = Name string | Items "(string \<times> xdata) list"

text \<open>What the XML parser returns, what response decoding builds, and what errors carry.\<close>

datatype js =
    JUndefined
  | JNull
  | JBool bool
  | JNum jsnum
  | JStr string
  | JArr "js list"
  | JObj "(string \<times> js) list"

datatype error =
    AssertionError string  \<comment> \<open>\<open>assert(cond, message)\<close> with a false condition\<close>
  | Error string js        \<comment> \<open>\<open>new Error(message)\<close> and its \<open>code\<close> property (\<open>JUndefined\<close> when never set)\<close>
  | TypeError              \<comment> \<open>a property read on \<open>undefined\<close> or \<open>null\<close>, \<open>Buffer.from\<close> on a non-buffer\<close>
  | RangeError             \<comment> \<open>a string that cannot grow any further\<close>
  | URIError               \<comment> \<open>\<open>decodeURIComponent\<close> on a malformed escape\<close>
  | ParseError string      \<comment> \<open>the XML parser's rejection\<close>
  | TransportError string  \<comment> \<open>the HTTP library's rejection\<close>

text \<open>A step that may raise, followed by the rest of the function.\<close>

definition and_then :: "error + 'a \<Rightarrow> ('a \<Rightarrow> error + 'b) \<Rightarrow> error + 'b" where
  "and_then r f = (case r of Inl e \<Rightarrow> Inl e | Inr v \<Rightarrow> f v)"

definition nl :: char where
  "nl = CHR 0x0A"

definition truthy_num :: "jsnum \<Rightarrow> bool" where
  "truthy_num n = (case n of NaN \<Rightarrow> False | Fin r \<Rightarrow> r \<noteq> 0 | _ \<Rightarrow> True)"

text \<open>\<open>a || b\<close> on numbers.\<close>

definition or_num :: "jsnum \<Rightarrow> jsnum \<Rightarrow> jsnum" where
  "or_num a b = (if truthy_num a then a else b)"

text \<open>
  \<open>n + 1\<close>. It is exact on a safe integer; \<open>2^53 + 1\<close> lies halfway between two doubles
  and is rounded to the even one, \<open>2^53\<close> itself; an infinity and \<open>NaN\<close> stay what they
  are.
\<close>

definition add_one :: "numerics \<Rightarrow> jsnum \<Rightarrow> jsnum" where
  "add_one t n = (case n of
       Fin r \<Rightarrow> if safe_integer r then Fin (r + 1)
                else if r = 2 ^ 53 then Fin r
                else plusOne t r
     | _ \<Rightarrow> n)"

definition digit_char :: "nat \<Rightarrow> char" where
  "digit_char d = ''0123456789'' ! d"

fun show_nat :: "nat \<Rightarrow> string" where
  "show_nat n = (if n < 10 then [digit_char n] else show_nat (n div 10) @ [digit_char (n mod 10)])"

declare show_nat.simps [simp del]

definition show_int :: "int \<Rightarrow> string" where
  "show_int i = (if i < 0 then ''-'' @ show_nat (nat (- i)) else show_nat (nat i))"

text \<open>\<open>String(n)\<close> for a number: a safe integer is written with all its digits.\<close>

definition show_num :: "numerics \<Rightarrow> jsnum \<Rightarrow> string" where
  "show_num t n = (case n of
       NaN \<Rightarrow> ''NaN''
     | PInf \<Rightarrow> ''Infinity''
     | NInf \<Rightarrow> ''-Infinity''
     | Fin r \<Rightarrow> if safe_integer r then show_int \<lfloor>r\<rfloor> else numberText t r)"

definition show_bool :: "bool \<Rightarrow> string" where
  "show_bool b = (if b then ''true'' else ''false'')"

text \<open>
  \<open>Number(data)\<close>. An array is converted through its string: the empty array gives the
  empty string, hence 0; an array of two-element items gives a string with a comma in
  it, hence \<open>NaN\<close>.
\<close>

definition Number :: "numerics \<Rightarrow> xdata \<Rightarrow> jsnum" where
  "Number t data = (case data of
       Undefined \<Rightarrow> NaN
     | Null \<Rightarrow> Fin 0
     | BoolV b \<Rightarrow> Fin (if b then 1 else 0)
     | NumV n \<Rightarrow> n
     | StrV s \<Rightarrow> toNumber t s
     | DateV d \<Rightarrow> Fin (of_int (getTime d))
     | ArrV items \<Rightarrow> (if items = [] then Fin 0 else NaN))"

section \<open>XMLUtils: the builder\<close>

definition padStr :: string where
  "padStr = ''  ''"

text \<open>\<open>i < num\<close> for the counter \<open>i\<close> of the loop below.\<close>

definition less_num :: "nat \<Rightarrow> jsnum \<Rightarrow> bool" where
  "less_num i num = (case num of Fin r \<Rightarrow> of_nat i < r | PInf \<Rightarrow> True | _ \<Rightarrow> False)"

text \<open>
  The \<open>for\<close> loop of \<open>pad\<close>: \<open>i\<close> counts up to \<open>num\<close>, \<open>out\<close> is the variable \<open>o\<close>. The
  counter is a double: \<open>i++\<close> is exact below \<open>2^53\<close> and leaves \<open>2^53\<close> as it is. A
  loop that gets there, its bound being larger or \<open>Infinity\<close>, only makes the string
  longer from then on, until the engine ends it with a \<open>RangeError\<close>. An engine ends
  the loop with that error as soon as the string passes its limit; as the limit is not
  enforced, a loop of fewer than \<open>2^53\<close> turns is run to its end here.
\<close>

function pad_loop :: "nat \<Rightarrow> jsnum \<Rightarrow> string \<Rightarrow> string \<Rightarrow> error + string" where
  "pad_loop i num str out =
     (if less_num i num then
        (if i < 2 ^ 53 then pad_loop (i + 1) num str (out @ str) else Inl RangeError)
      else Inr out)"
  by pat_completeness auto
termination
  by (relation "measure (\<lambda>(i, num, str, out). 2 ^ 53 - i)") auto

declare pad_loop.simps [simp del]

definition pad :: "jsnum \<Rightarrow> string option \<Rightarrow> error + string" where
  "pad num str =
     (let str' = (case str of None \<Rightarrow> padStr | Some s \<Rightarrow> if s = [] then padStr else s)
      in if less_num 0 num then pad_loop 0 num str' [] else Inr [])"

definition replaceXMLChar :: "char \<Rightarrow> string" where
  "replaceXMLChar chr =
     (if chr = CHR ''<'' then ''&lt;''
      else if chr = CHR ''>'' then ''&gt;''
      else if chr = CHR ''&'' then ''&amp;''
      else [chr])"

definition escapeXMLString :: "string \<Rightarrow> string" where
  "escapeXMLString str = concat (map replaceXMLChar str)"

text \<open>A month or day below 10 gets a leading zero.\<close>

definition two_digits :: "numerics \<Rightarrow> int \<Rightarrow> string" where
  "two_digits t m =
     (if m < 10 then ''0'' @ show_num t (Fin (of_int m)) else show_num t (Fin (of_int m)))"

definition date_text :: "numerics \<Rightarrow> date \<Rightarrow> string" where
  "date_text t d =
     (let y = getFullYear d; m = getMonth d + 1; d' = getDate d
      in show_num t (Fin (of_int y)) @ ''-'' @ two_digits t m @ ''-'' @ two_digits t d')"

text \<open>\<open>String(data)\<close> for the data that reaches the last branch of \<open>wrapWithElement\<close>.\<close>

definition scalar_text :: "numerics \<Rightarrow> xdata \<Rightarrow> string" where
  "scalar_text t data = (case data of
       Undefined \<Rightarrow> ''undefined''
     | Null \<Rightarrow> ''null''
     | BoolV b \<Rightarrow> show_bool b
     | NumV n \<Rightarrow> show_num t n
     | StrV s \<Rightarrow> s
     | _ \<Rightarrow> [])"

text \<open>\<open>results.join('')\<close> for the results of \<open>map\<close>: the first call that raises ends
  the whole.\<close>

fun collect :: "(error + string) list \<Rightarrow> error + string" where
  "collect [] = Inr []"
| "collect (r # rs) =
     (case r of
        Inl e \<Rightarrow> Inl e
      | Inr s \<Rightarrow> (case collect rs of Inl e \<Rightarrow> Inl e | Inr ss \<Rightarrow> Inr (s @ ss)))"

text \<open>
  \<open>wrapWithElement(name, data, indentLevel)\<close>; an omitted \<open>indentLevel\<close> is \<open>None\<close>. The
  call \<open>wrapWithElement(data, indentLevel)\<close> on a nested array passes the array as the
  name and the level as the data. The call raises when one of its paddings does.
\<close>

function wrapWithElement ::
  "numerics \<Rightarrow> name_arg \<Rightarrow> xdata \<Rightarrow> jsnum option \<Rightarrow> error + string" where
  "wrapWithElement t name data indentLevel =
     (let lvl = or_num (case indentLevel of
                          None \<Rightarrow> Number t data
                        | Some l \<Rightarrow> or_num l (Number t data)) (Fin 0)
      in case name of
           Items items \<Rightarrow>
             collect (map (\<lambda>item. wrapWithElement t (Name (fst item)) (snd item)
                                    (Some (add_one t lvl))) items)
         | Name n \<Rightarrow>
             if data \<noteq> Undefined \<and> data \<noteq> Null then
               (case pad lvl None of
                  Inl e \<Rightarrow> Inl e
                | Inr p \<Rightarrow>
                    (case (case data of
                             ArrV items \<Rightarrow>
                               (case wrapWithElement t (Items items) (NumV lvl) None of
                                  Inl e \<Rightarrow> Inl e
                                | Inr inner \<Rightarrow>
                                    (case pad lvl (Some ''  '') of
                                       Inl e \<Rightarrow> Inl e
                                     | Inr p' \<Rightarrow> Inr ([nl] @ inner @ p')))
                           | DateV d \<Rightarrow> Inr (date_text t d)
                           | _ \<Rightarrow> Inr (escapeXMLString (scalar_text t data))) of
                       Inl e \<Rightarrow> Inl e
                     | Inr body \<Rightarrow>
                         Inr (p @ ''<'' @ n @ ''>'' @ body @ ''</'' @ n @ ''>'' @ [nl])))
             else Inr [])"
  by pat_completeness auto
termination
proof -
  have item_size: "size (snd item) < size (ArrV items)"
    if "item \<in> set items" for item :: "string \<times> xdata" and items
    using that by (induction items) auto
  show ?thesis
    by (relation "measure (\<lambda>(t, name, data, indentLevel).
          case name of Items items \<Rightarrow> 2 * size (ArrV items) - 1 | Name n \<Rightarrow> 2 * size data)")
       (auto dest: item_size)
qed

declare wrapWithElement.simps [simp del]

section \<open>Reading parsed documents\<close>

text \<open>
  Own properties only: members inherited from a prototype are not modelled. An array and
  a string own \<open>length\<close> and their indices, written in decimal.
\<close>

definition array_index :: "string \<Rightarrow> nat \<Rightarrow> nat option" where
  "array_index k n = find (\<lambda>i. show_nat i = k) [0..<n]"

text \<open>\<open>p.hasOwnProperty(k)\<close>; an object with a member of that very name has no such method.\<close>

definition hasOwnProperty :: "js \<Rightarrow> string \<Rightarrow> error + bool" where
  "hasOwnProperty p k = (case p of
       JUndefined \<Rightarrow> Inl TypeError
     | JNull \<Rightarrow> Inl TypeError
     | JObj kvs \<Rightarrow>
         (if map_of kvs ''hasOwnProperty'' \<noteq> None then Inl TypeError
          else Inr (map_of kvs k \<noteq> None))
     | JArr xs \<Rightarrow> Inr (k = ''length'' \<or> array_index k (length xs) \<noteq> None)
     | JStr s \<Rightarrow> Inr (k = ''length'' \<or> array_index k (length s) \<noteq> None)
     | _ \<Rightarrow> Inr False)"

text \<open>\<open>p[k]\<close> and \<open>p.k\<close>.\<close>

definition getProp :: "js \<Rightarrow> string \<Rightarrow> error + js" where
  "getProp p k = (case p of
       JUndefined \<Rightarrow> Inl TypeError
     | JNull \<Rightarrow> Inl TypeError
     | JObj kvs \<Rightarrow> Inr (case map_of kvs k of None \<Rightarrow> JUndefined | Some v \<Rightarrow> v)
     | JArr xs \<Rightarrow>
         Inr (if k = ''length'' then JNum (Fin (of_nat (length xs)))
              else case array_index k (length xs) of None \<Rightarrow> JUndefined | Some i \<Rightarrow> xs ! i)
     | JStr s \<Rightarrow>
         Inr (if k = ''length'' then JNum (Fin (of_nat (length s)))
              else case array_index k (length s) of None \<Rightarrow> JUndefined | Some i \<Rightarrow> JStr [s ! i])
     | _ \<Rightarrow> Inr JUndefined)"

text \<open>\<open>x?.[0]\<close>\<close>

definition opt_first :: "js \<Rightarrow> js" where
  "opt_first x =
     (if x = JUndefined \<or> x = JNull then JUndefined
      else case getProp x ''0'' of Inl e \<Rightarrow> JUndefined | Inr v \<Rightarrow> v)"

definition truthy :: "js \<Rightarrow> bool" where
  "truthy x = (case x of
       JUndefined \<Rightarrow> False
     | JNull \<Rightarrow> False
     | JBool b \<Rightarrow> b
     | JNum n \<Rightarrow> truthy_num n
     | JStr s \<Rightarrow> s \<noteq> []
     | _ \<Rightarrow> True)"

text \<open>\<open>a || b\<close>\<close>

definition or_js :: "js \<Rightarrow> js \<Rightarrow> js" where
  "or_js a b = (if truthy a then a else b)"

fun join :: "string \<Rightarrow> string list \<Rightarrow> string" where
  "join sep [] = []"
| "join sep [x] = x"
| "join sep (x # y # ys) = x @ sep @ join sep (y # ys)"

text \<open>\<open>String(x)\<close>: an array joins its elements with commas, \<open>undefined\<close> and \<open>null\<close>
  elements giving the empty string.\<close>

fun toString :: "numerics \<Rightarrow> js \<Rightarrow> string" where
  "toString t JUndefined = ''undefined''"
| "toString t JNull = ''null''"
| "toString t (JBool b) = show_bool b"
| "toString t (JNum n) = show_num t n"
| "toString t (JStr s) = s"
| "toString t (JArr xs) =
     join '','' (map (\<lambda>x. if x = JUndefined \<or> x = JNull then [] else toString t x) xs)"
| "toString t (JObj kvs) = ''[object Object]''"

text \<open>The \<open>message\<close> of \<open>new Error(x)\<close>: empty when \<open>x\<close> is \<open>undefined\<close>.\<close>

definition error_message :: "numerics \<Rightarrow> js \<Rightarrow> string" where
  "error_message t x = (if x = JUndefined then [] else toString t x)"

section \<open>XMLUtils: the projector\<close>

text \<open>\<open>keyPath.split('.')\<close>\<close>

fun split_dot :: "string \<Rightarrow> string list" where
  "split_dot [] = [[]]"
| "split_dot (c # cs) =
     (if c = CHR ''.'' then [] # split_dot cs
      else case split_dot cs of [] \<Rightarrow> [[c]] | seg # segs \<Rightarrow> (c # seg) # segs)"

text \<open>
  The inner \<open>for\<close> loop of \<open>xml2obj\<close> from \<open>p\<close> over the remaining segments: \<open>Some\<close> of
  the value reached when \<open>found\<close> stays true, \<open>None\<close> when a segment is no own property.
\<close>

fun walk :: "js \<Rightarrow> string list \<Rightarrow> error + js option" where
  "walk p [] = Inr (Some p)"
| "walk p (seg # path) =
     (case hasOwnProperty p seg of
        Inl e \<Rightarrow> Inl e
      | Inr False \<Rightarrow> Inr None
      | Inr True \<Rightarrow> (case getProp p seg of Inl e \<Rightarrow> Inl e | Inr p' \<Rightarrow> walk p' path))"

text \<open>
  The \<open>forEach\<close> over the keys of \<open>objList\<close>, given as the list of its entries in key order;
  \<open>hash\<close> is the object being filled.
\<close>

fun project :: "js \<Rightarrow> (string \<times> string) list \<Rightarrow> (string \<rightharpoonup> js) \<Rightarrow> error + (string \<rightharpoonup> js)" where
  "project res [] hash = Inr hash"
| "project res ((keyPath, out) # objList) hash =
     (case walk res (split_dot keyPath) of
        Inl e \<Rightarrow> Inl e
      | Inr None \<Rightarrow> project res objList hash
      | Inr (Some p) \<Rightarrow>
          (case getProp p ''0'' of
             Inl e \<Rightarrow> Inl e
           | Inr v \<Rightarrow> project res objList (hash(out \<mapsto> v))))"

text \<open>\<open>xml2obj(xml, objList)\<close>; \<open>parse\<close> is \<open>parseString\<close>, the wrapper of the XML library.\<close>

definition xml2obj ::
  "(string \<Rightarrow> error + js) \<Rightarrow> string \<Rightarrow> (string \<times> string) list \<Rightarrow> error + (string \<rightharpoonup> js)" where
  "xml2obj parse xml objList =
     (case parse xml of Inl e \<Rightarrow> Inl e | Inr res \<Rightarrow> project res objList Map.empty)"

section \<open>Client: configuration and construction\<close>

text \<open>
  The argument of the constructor. The three credentials are tested dynamically by the
  code, so they are any data (\<open>Undefined\<close> when absent); an absent setting is \<open>None\<close>.
\<close>

record options_arg =
  arg_authToken :: xdata
  arg_user :: xdata
  arg_password :: xdata
  arg_eInvoice :: "bool option"
  arg_requestInvoiceDownload :: "bool option"
  arg_downloadedInvoiceCount :: "int option"
  arg_responseVersion :: "int option"
  arg_timeout :: "int option"

text \<open>\<open>this._options\<close>\<close>

record client_options =
  authToken :: xdata
  user :: xdata
  password :: xdata
  eInvoice :: bool
  requestInvoiceDownload :: bool
  downloadedInvoiceCount :: int
  responseVersion :: int
  timeout :: int

text \<open>The client object; its cookie jar and HTTP instance are part of the transport.\<close>

record client =
  options :: client_options
  useToken :: bool

definition no_options :: options_arg where
  "no_options = \<lparr> arg_authToken = Undefined, arg_user = Undefined, arg_password = Undefined,
     arg_eInvoice = None, arg_requestInvoiceDownload = None, arg_downloadedInvoiceCount = None,
     arg_responseVersion = None, arg_timeout = None \<rparr>"

text \<open>\<open>merge({}, defaultOptions, options || {})\<close>\<close>

definition merge_defaults :: "options_arg option \<Rightarrow> client_options" where
  "merge_defaults opts =
     (let a = (case opts of None \<Rightarrow> no_options | Some a \<Rightarrow> a)
      in \<lparr> authToken = arg_authToken a,
           user = arg_user a,
           password = arg_password a,
           eInvoice = (case arg_eInvoice a of None \<Rightarrow> False | Some v \<Rightarrow> v),
           requestInvoiceDownload =
             (case arg_requestInvoiceDownload a of None \<Rightarrow> False | Some v \<Rightarrow> v),
           downloadedInvoiceCount =
             (case arg_downloadedInvoiceCount a of None \<Rightarrow> 1 | Some v \<Rightarrow> v),
           responseVersion = (case arg_responseVersion a of None \<Rightarrow> 1 | Some v \<Rightarrow> v),
           timeout = (case arg_timeout a of None \<Rightarrow> 0 | Some v \<Rightarrow> v) \<rparr>)"

definition is_space :: "char \<Rightarrow> bool" where
  "is_space c = (c \<in> set [CHR 0x09, CHR 0x0A, CHR 0x0B, CHR 0x0C, CHR 0x0D, CHR 0x20, CHR 0xA0])"

definition trim :: "string \<Rightarrow> string" where
  "trim s = rev (dropWhile is_space (rev (dropWhile is_space s)))"

text \<open>The test every validation repeats:
  \<open>typeof x === 'string' && x.trim().length > 1\<close>\<close>

definition string_longer_than_1 :: "xdata \<Rightarrow> bool" where
  "string_longer_than_1 x = (case x of StrV s \<Rightarrow> length (trim s) > 1 | _ \<Rightarrow> False)"

definition Client_constructor :: "options_arg option \<Rightarrow> error + client" where
  "Client_constructor opts =
     (let opts' = merge_defaults opts;
          tok = string_longer_than_1 (authToken opts')
      in if \<not> tok \<and> \<not> string_longer_than_1 (user opts')
           then Inl (AssertionError ''Valid User field missing form client options'')
         else if \<not> tok \<and> \<not> string_longer_than_1 (password opts')
           then Inl (AssertionError ''Valid Password field missing form client options'')
         else Inr \<lparr> options = opts', useToken = tok \<rparr>)"

definition setRequestInvoiceDownload :: "client \<Rightarrow> bool \<Rightarrow> client" where
  "setRequestInvoiceDownload c v = c\<lparr> options := (options c)\<lparr> requestInvoiceDownload := v \<rparr> \<rparr>"

section \<open>Client: the transport\<close>

text \<open>What the HTTP library is given (the one form field, its file content, whether the
  body is wanted as bytes, the timeout) and what it answers.\<close>

record request =
  fileFieldName :: string
  content :: string
  binary :: bool
  req_timeout :: int

record response =
  status :: int
  statusText :: string
  headers :: "string \<rightharpoonup> string"
  data :: string

text \<open>
  The collaborators of the client: the XML library behind \<open>parseString\<close>, the function
  \<open>removeNamespaces\<close> of XMLUtils, the built-in \<open>decodeURIComponent\<close>, the engine's
  numbers, \<open>Buffer.from(s, 'base64')\<close> on a string and on an object, the HTTP post,
  and the clock.
\<close>

record env =
  parseString :: "string \<Rightarrow> error + js"
  removeNamespaces :: "js \<Rightarrow> js"
  decodeURIComponent :: "string \<Rightarrow> error + string"
  numbers :: numerics
  base64 :: "string \<Rightarrow> string"
  bufferFromObject :: "js \<Rightarrow> error + string"
  post :: "request \<Rightarrow> error + response"
  now :: date

definition getXmlHeader :: "string \<Rightarrow> string \<Rightarrow> string" where
  \<open>getXmlHeader tag dir =
     ''<?xml version="1.0" encoding="UTF-8"?>'' @ [nl] @
     ''    <'' @ tag @ '' xmlns="http://www.szamlazz.hu/'' @ tag @
     ''" xmlns:xsi="http://www.w3.org/2001/XMLSchema-instance"'' @ [nl] @
     ''      xsi:schemaLocation="http://www.szamlazz.hu/'' @ tag @
     '' https://www.szamlazz.hu/szamla/docs/xsds/'' @ dir @ ''/'' @ tag @ ''.xsd">'' @ [nl]\<close>

definition getAuthFields :: "client \<Rightarrow> (string \<times> xdata) list" where
  "getAuthFields c =
     (if useToken c then [(''szamlaagentkulcs'', authToken (options c))]
      else [(''felhasznalo'', user (options c)), (''jelszo'', password (options c))])"

text \<open>\<open>str.replace(/\+/g, ' ')\<close>\<close>

definition plus_to_space :: "string \<Rightarrow> string" where
  "plus_to_space str = map (\<lambda>c. if c = CHR ''+'' then CHR '' '' else c) str"

text \<open>
  \<open>_sendRequest\<close> from the test \<open>isBinaryDownload || fileFieldName === ...\<close> on: the
  response is handed back as it is, or its body is parsed and searched for an error node.
\<close>

definition sendRequest_body :: "env \<Rightarrow> string \<Rightarrow> bool \<Rightarrow> response \<Rightarrow> error + response" where
  "sendRequest_body env field isBinaryDownload httpResponse =
     (if isBinaryDownload \<or> field = ''action-szamla_agent_kifiz'' then Inr httpResponse
      else
        (case parseString env (data httpResponse) of
           Inl e \<Rightarrow> Inl e
         | Inr parsedBody \<Rightarrow>
             (case getProp parsedBody ''xmlszamlavalasz'' of
                Inl e \<Rightarrow> Inl e
              | Inr valasz \<Rightarrow>
                  if \<not> truthy valasz then Inr httpResponse
                  else
                    (case getProp valasz ''hibakod'' of
                       Inl e \<Rightarrow> Inl e
                     | Inr hibakod \<Rightarrow>
                         if \<not> truthy hibakod then Inr httpResponse
                         else
                           (case getProp valasz ''hibauzenet'' of
                              Inl e \<Rightarrow> Inl e
                            | Inr hibauzenet \<Rightarrow>
                                (case getProp hibakod ''0'' of
                                   Inl e \<Rightarrow> Inl e
                                 | Inr kod \<Rightarrow>
                                     Inl (Error (error_message (numbers env) hibauzenet) kod)))))))"

text \<open>The test \<open>if (httpResponse.headers.szlahu_error_code)\<close>: the header is there and
  not the empty string.\<close>

definition error_code_header :: "response \<Rightarrow> string option" where
  "error_code_header httpResponse =
     (case headers httpResponse ''szlahu_error_code'' of
        None \<Rightarrow> None
      | Some code \<Rightarrow> if code = [] then None else Some code)"

text \<open>\<open>_sendRequest(fileFieldName, data, isBinaryDownload)\<close>\<close>

definition sendRequest :: "env \<Rightarrow> client \<Rightarrow> string \<Rightarrow> string \<Rightarrow> bool \<Rightarrow> error + response" where
  "sendRequest env c field xml isBinaryDownload =
     (case post env \<lparr> fileFieldName = field, content = xml, binary = isBinaryDownload,
                       req_timeout = timeout (options c) \<rparr> of
        Inl e \<Rightarrow> Inl e
      | Inr httpResponse \<Rightarrow>
          if status httpResponse \<noteq> 200 then
            Inl (Error (show_num (numbers env) (Fin (of_int (status httpResponse))) @ '' '' @
                          statusText httpResponse) JUndefined)
          else
            (case error_code_header httpResponse of
               Some code \<Rightarrow>
                 (case headers httpResponse ''szlahu_error'' of
                    None \<Rightarrow> Inl TypeError
                  | Some msg \<Rightarrow>
                      (case decodeURIComponent env (plus_to_space msg) of
                         Inl e \<Rightarrow> Inl e
                       | Inr m \<Rightarrow> Inl (Error m (JStr code))))
             | None \<Rightarrow> sendRequest_body env field isBinaryDownload httpResponse))"

section \<open>Client: the operations\<close>

text \<open>The options object of an operation; a member that was not given is \<open>Undefined\<close>
  or \<open>None\<close>.\<close>

record call_options =
  opt_invoiceId :: xdata
  opt_orderNumber :: xdata
  opt_pdf :: xdata
  opt_eInvoice :: "bool option"
  opt_requestInvoiceDownload :: "bool option"
  opt_taxNumber :: xdata
  opt_additive :: "bool option"

text \<open>The result of issuing, reversing and crediting: the four summary headers
  (\<open>None\<close> for \<open>undefined\<close>), and \<open>pdf\<close>, \<open>None\<close> when the key is not set.\<close>

record invoice_result =
  res_invoiceId :: "string option"
  res_netTotal :: "string option"
  res_grossTotal :: "string option"
  res_customerAccountUrl :: "string option"
  res_pdf :: "string option"

text \<open>The request documents are built as the code writes them, header first; building
  one raises when \<open>wrapWithElement\<close> does.\<close>

definition getInvoiceData_xml :: "env \<Rightarrow> client \<Rightarrow> call_options \<Rightarrow> error + string" where
  "getInvoiceData_xml env c opts =
     and_then
       (wrapWithElement (numbers env)
          (Items (getAuthFields c @
            [(''szamlaszam'', opt_invoiceId opts),
             (''rendelesSzam'', opt_orderNumber opts),
             (''pdf'', opt_pdf opts)])) Undefined None) (\<lambda>fields.
     Inr (getXmlHeader ''xmlszamlaxml'' ''agentxml'' @ fields @ ''</xmlszamlaxml>''))"

definition getInvoiceData :: "env \<Rightarrow> client \<Rightarrow> call_options \<Rightarrow> error + js" where
  "getInvoiceData env c opts =
     (let hasInvoiceId = string_longer_than_1 (opt_invoiceId opts);
          hasOrderNumber = string_longer_than_1 (opt_orderNumber opts)
      in if \<not> (hasInvoiceId \<or> hasOrderNumber)
           then Inl (AssertionError ''Either invoiceId or orderNumber must be specified'')
         else
           and_then (getInvoiceData_xml env c opts) (\<lambda>xml.
           and_then (sendRequest env c ''action-szamla_agent_xml'' xml False) (\<lambda>response.
           and_then (parseString env (data response)) (\<lambda>parsedBody.
           getProp parsedBody ''szamla''))))"

text \<open>\<open>String(b)\<close> for the flags of \<open>reverseInvoice\<close>, which are asserted to be given.\<close>

definition flag_text :: "bool option \<Rightarrow> xdata" where
  "flag_text b = (case b of None \<Rightarrow> StrV ''undefined'' | Some v \<Rightarrow> StrV (show_bool v))"

definition reverseInvoice_xml :: "env \<Rightarrow> client \<Rightarrow> call_options \<Rightarrow> error + string" where
  "reverseInvoice_xml env c opts =
     and_then
       (wrapWithElement (numbers env) (Name ''beallitasok'')
          (ArrV (getAuthFields c @
            [(''eszamla'', flag_text (opt_eInvoice opts)),
             (''szamlaLetoltes'', flag_text (opt_requestInvoiceDownload opts))])) None)
       (\<lambda>settings.
     and_then
       (wrapWithElement (numbers env) (Name ''fejlec'')
          (ArrV [(''szamlaszam'', opt_invoiceId opts), (''keltDatum'', DateV (now env))]) None)
       (\<lambda>head.
     Inr (getXmlHeader ''xmlszamlast'' ''agentst'' @ settings @ head @ ''</xmlszamlast>'')))"

definition summary :: "response \<Rightarrow> invoice_result" where
  "summary httpResponse =
     \<lparr> res_invoiceId = headers httpResponse ''szlahu_szamlaszam'',
       res_netTotal = headers httpResponse ''szlahu_nettovegosszeg'',
       res_grossTotal = headers httpResponse ''szlahu_bruttovegosszeg'',
       res_customerAccountUrl = headers httpResponse ''szlahu_vevoifiokurl'',
       res_pdf = None \<rparr>"

definition reverseInvoice :: "env \<Rightarrow> client \<Rightarrow> call_options \<Rightarrow> error + invoice_result" where
  "reverseInvoice env c opts =
     (if \<not> string_longer_than_1 (opt_invoiceId opts)
        then Inl (AssertionError ''invoiceId must be specified'')
      else if opt_eInvoice opts = None
        then Inl (AssertionError ''eInvoice must be specified'')
      else if opt_requestInvoiceDownload opts = None
        then Inl (AssertionError ''requestInvoiceDownload must be specified'')
      else
        and_then (reverseInvoice_xml env c opts) (\<lambda>xml.
        and_then (sendRequest env c ''action-szamla_agent_st'' xml True) (\<lambda>httpResponse.
        Inr (if opt_requestInvoiceDownload opts = Some True
             then (summary httpResponse)\<lparr> res_pdf := Some (data httpResponse) \<rparr>
             else summary httpResponse))))"

text \<open>The invoice object is its method \<open>_generateXML(indentLevel)\<close>.\<close>

type_synonym invoice = "int \<Rightarrow> string"

definition issueInvoice_xml :: "env \<Rightarrow> client \<Rightarrow> invoice \<Rightarrow> error + string" where
  "issueInvoice_xml env c invoice =
     and_then
       (wrapWithElement (numbers env) (Name ''beallitasok'')
          (ArrV (getAuthFields c @
            [(''eszamla'', BoolV (eInvoice (options c))),
             (''szamlaLetoltes'', BoolV (requestInvoiceDownload (options c))),
             (''szamlaLetoltesPld'', NumV (Fin (of_int (downloadedInvoiceCount (options c))))),
             (''valaszVerzio'', NumV (Fin (of_int (responseVersion (options c)))))]))
          (Some (Fin 1))) (\<lambda>settings.
     Inr (getXmlHeader ''xmlszamla'' ''agent'' @ settings @ invoice 1 @ ''</xmlszamla>''))"

text \<open>\<open>Buffer.from(v, 'base64')\<close>: a string is decoded, an array or an object is left to
  the library, anything else is refused.\<close>

definition Buffer_from_base64 :: "env \<Rightarrow> js \<Rightarrow> error + string" where
  "Buffer_from_base64 env v = (case v of
       JStr s \<Rightarrow> Inr (base64 env s)
     | JArr xs \<Rightarrow> bufferFromObject env v
     | JObj kvs \<Rightarrow> bufferFromObject env v
     | _ \<Rightarrow> Inl TypeError)"

definition issueInvoice :: "env \<Rightarrow> client \<Rightarrow> invoice \<Rightarrow> error + invoice_result" where
  "issueInvoice env c invoice =
     and_then (issueInvoice_xml env c invoice) (\<lambda>xml.
     and_then (sendRequest env c ''action-xmlagentxmlfile'' xml
                 (responseVersion (options c) = 1)) (\<lambda>httpResponse.
          if requestInvoiceDownload (options c) then
            if responseVersion (options c) = 1 then
              Inr ((summary httpResponse)\<lparr> res_pdf := Some (data httpResponse) \<rparr>)
            else if responseVersion (options c) = 2 then
              (case xml2obj (parseString env) (data httpResponse)
                      [(''xmlszamlavalasz.pdf'', ''pdf'')] of
                 Inl e \<Rightarrow> Inl e
               | Inr parsed \<Rightarrow>
                   (case Buffer_from_base64 env
                           (case parsed ''pdf'' of None \<Rightarrow> JUndefined | Some v \<Rightarrow> v) of
                      Inl e \<Rightarrow> Inl e
                    | Inr buf \<Rightarrow> Inr ((summary httpResponse)\<lparr> res_pdf := Some buf \<rparr>)))
            else Inr (summary httpResponse)
          else Inr (summary httpResponse)))"

text \<open>\<open>obj.k?.[0] || null\<close>\<close>

definition first_or_null :: "js \<Rightarrow> string \<Rightarrow> error + js" where
  "first_or_null obj k = and_then (getProp obj k) (\<lambda>v. Inr (or_js (opt_first v) JNull))"

definition extractAddress :: "js \<Rightarrow> error + js" where
  "extractAddress addressList =
     (if \<not> truthy addressList then Inr JNull
      else
        and_then (getProp addressList ''taxpayerAddressItem'') (\<lambda>items.
          if \<not> truthy items then Inr JNull
          else
            and_then (getProp items ''0'') (\<lambda>item.
            and_then (getProp item ''taxpayerAddress'') (\<lambda>ta.
            let addressItem = or_js (opt_first ta) (JObj []) in
            and_then (first_or_null addressItem ''countryCode'') (\<lambda>countryCode.
            and_then (first_or_null addressItem ''postalCode'') (\<lambda>postalCode.
            and_then (first_or_null addressItem ''city'') (\<lambda>city.
            and_then (first_or_null addressItem ''streetName'') (\<lambda>streetName.
            and_then (first_or_null addressItem ''publicPlaceCategory'') (\<lambda>publicPlaceCategory.
            and_then (first_or_null addressItem ''number'') (\<lambda>number.
            Inr (JObj
              [(''countryCode'', countryCode),
               (''postalCode'', postalCode),
               (''city'', city),
               (''streetName'', streetName),
               (''publicPlaceCategory'', publicPlaceCategory),
               (''number'', number)])))))))))))"

definition is_digit :: "char \<Rightarrow> bool" where
  "is_digit c = (c \<in> set ''0123456789'')"

text \<open>\<open>typeof x === 'number' && /^[0-9]{8}$/.test(x.toString())\<close>\<close>

definition eight_digit_number :: "numerics \<Rightarrow> xdata \<Rightarrow> bool" where
  "eight_digit_number t x = (case x of
       NumV n \<Rightarrow> (let s = show_num t n in length s = 8 \<and> list_all is_digit s)
     | _ \<Rightarrow> False)"

definition queryTaxPayer_xml :: "env \<Rightarrow> client \<Rightarrow> xdata \<Rightarrow> error + string" where
  "queryTaxPayer_xml env c taxPayerId =
     and_then
       (wrapWithElement (numbers env) (Name ''beallitasok'') (ArrV (getAuthFields c))
          (Some (Fin 1))) (\<lambda>settings.
     and_then
       (wrapWithElement (numbers env) (Name ''torzsszam'') taxPayerId (Some (Fin 1)))
       (\<lambda>number.
     Inr (getXmlHeader ''xmltaxpayer'' ''agent'' @ settings @ number @ ''</xmltaxpayer>'')))"

text \<open>The part of \<open>queryTaxPayer\<close> after the early return: the taxpayer is valid.\<close>

definition taxpayer_details :: "js \<Rightarrow> error + js" where
  "taxpayer_details cleanParsedBodyData =
     and_then (getProp cleanParsedBodyData ''taxpayerData'') (\<lambda>td.
     let taxpayerData = or_js (opt_first td) (JObj []) in
     and_then (getProp taxpayerData ''taxNumberDetail'') (\<lambda>tnd.
     let taxNumberDetail = or_js (opt_first tnd) (JObj []) in
     and_then (first_or_null taxNumberDetail ''taxpayerId'') (\<lambda>taxpayerId.
     and_then (first_or_null taxNumberDetail ''vatCode'') (\<lambda>vatCode.
     and_then (first_or_null taxNumberDetail ''countyCode'') (\<lambda>countyCode.
     and_then (first_or_null taxpayerData ''taxpayerName'') (\<lambda>taxpayerName.
     and_then (first_or_null taxpayerData ''taxpayerShortName'') (\<lambda>taxpayerShortName.
     and_then (getProp taxpayerData ''taxpayerAddressList'') (\<lambda>tal.
     and_then (extractAddress (opt_first tal)) (\<lambda>address.
     Inr (JObj
       [(''taxpayerValidity'', JBool True),
        (''taxpayerId'', taxpayerId),
        (''vatCode'', vatCode),
        (''countyCode'', countyCode),
        (''taxpayerName'', taxpayerName),
        (''taxpayerShortName'', taxpayerShortName),
        (''address'', address)]))))))))))"

text \<open>The decoding of \<open>queryTaxPayer\<close>, from the transport's response on.\<close>

definition queryTaxPayer_decode :: "env \<Rightarrow> response \<Rightarrow> error + js" where
  "queryTaxPayer_decode env response =
     and_then (parseString env (data response)) (\<lambda>parsedBody.
     let cleanParsedBody = removeNamespaces env parsedBody in
     and_then (getProp cleanParsedBody ''QueryTaxpayerResponse'') (\<lambda>cleanParsedBodyData.
     and_then (getProp cleanParsedBodyData ''taxpayerValidity'') (\<lambda>tv.
     let taxpayerValidity = (opt_first tv = JStr ''true'') in
     if \<not> taxpayerValidity then Inr (JObj [(''taxpayerValidity'', JBool False)])
     else taxpayer_details cleanParsedBodyData)))"

definition queryTaxPayer :: "env \<Rightarrow> client \<Rightarrow> xdata \<Rightarrow> error + js" where
  "queryTaxPayer env c taxPayerId =
     (if \<not> eight_digit_number (numbers env) taxPayerId
        then Inl (AssertionError ''taxPayerId must be an 8-digit number'')
      else
        and_then (queryTaxPayer_xml env c taxPayerId) (\<lambda>xml.
        and_then (sendRequest env c ''action-szamla_agent_taxpayer'' xml False)
          (queryTaxPayer_decode env)))"

definition truthy_data :: "xdata \<Rightarrow> bool" where
  "truthy_data x = (case x of
       Undefined \<Rightarrow> False
     | Null \<Rightarrow> False
     | BoolV b \<Rightarrow> b
     | NumV n \<Rightarrow> truthy_num n
     | StrV s \<Rightarrow> s \<noteq> []
     | _ \<Rightarrow> True)"

text \<open>\<open>a || b\<close> on data, and on a flag that may be missing.\<close>

definition or_data :: "xdata \<Rightarrow> xdata \<Rightarrow> xdata" where
  "or_data a b = (if truthy_data a then a else b)"

definition or_flag :: "bool option \<Rightarrow> bool \<Rightarrow> bool" where
  "or_flag a b = (case a of None \<Rightarrow> b | Some v \<Rightarrow> if v then v else b)"

text \<open>
  A credit entry is any object; \<open>None\<close> in the array is an element that is no instance of
  \<open>CreditEntry\<close>, and \<open>generateXML\<close> is the method \<open>_generateXML()\<close> of one that is.
\<close>

definition registerCreditEntry_xml ::
  "env \<Rightarrow> client \<Rightarrow> call_options \<Rightarrow> ('e \<Rightarrow> string) \<Rightarrow> 'e option list
     \<Rightarrow> error + string" where
  "registerCreditEntry_xml env c opts generateXML creditEntries =
     and_then
       (wrapWithElement (numbers env) (Name ''beallitasok'')
          (ArrV (getAuthFields c @
            [(''szamlaszam'', opt_invoiceId opts),
             (''adoszam'', or_data (opt_taxNumber opts) (StrV [])),
             (''additiv'', StrV (show_bool (or_flag (opt_additive opts) True)))]))
          (Some (Fin 1))) (\<lambda>settings.
     Inr (getXmlHeader ''xmlszamlakifiz'' ''agentkifiz'' @ settings @
          concat (map (\<lambda>creditEntry. case creditEntry of None \<Rightarrow> [] | Some e \<Rightarrow> generateXML e)
                    creditEntries) @
          ''</xmlszamlakifiz>''))"

record credit_result =
  cr_invoiceId :: "string option"
  cr_netTotal :: "string option"
  cr_grossTotal :: "string option"

definition registerCreditEntry ::
  "env \<Rightarrow> client \<Rightarrow> call_options \<Rightarrow> ('e \<Rightarrow> string) \<Rightarrow> 'e option list option
     \<Rightarrow> error + credit_result" where
  "registerCreditEntry env c opts generateXML creditEntries =
     (if \<not> string_longer_than_1 (opt_invoiceId opts)
        then Inl (AssertionError ''invoiceId must be specified'')
      else if creditEntries = None \<or> creditEntries = Some []
        then Inl (AssertionError ''creditEntries must be specified and must be an array'')
      else if \<not> list_all (\<lambda>entry. entry \<noteq> None) (case creditEntries of None \<Rightarrow> [] | Some es \<Rightarrow> es)
        then Inl (AssertionError ''All entries must be instances of CreditEntry'')
      else
        and_then (registerCreditEntry_xml env c opts generateXML
                    (case creditEntries of None \<Rightarrow> [] | Some es \<Rightarrow> es)) (\<lambda>xml.
        and_then (sendRequest env c ''action-szamla_agent_kifiz'' xml False) (\<lambda>httpResponse.
        Inr \<lparr> cr_invoiceId = headers httpResponse ''szlahu_szamlaszam'',
              cr_netTotal = headers httpResponse ''szlahu_nettovegosszeg'',
              cr_grossTotal = headers httpResponse ''szlahu_bruttovegosszeg'' \<rparr>)))"

section \<open>What the specification says, as definitions\<close>

text \<open>Indentation by \<open>k\<close> levels of two spaces, and an element with text content on a
  line of its own at that level.\<close>

definition indent :: "int \<Rightarrow> string" where
  "indent k = concat (replicate (nat k) ''  '')"

definition element :: "int \<Rightarrow> string \<Rightarrow> string \<Rightarrow> string" where
  "element k n s = indent k @ ''<'' @ n @ ''>'' @ s @ ''</'' @ n @ ''>'' @ [nl]"

text \<open>The text of a credential, which is a string once the constructor has accepted
  it.\<close>

definition credential_text :: "xdata \<Rightarrow> string" where
  "credential_text x = (case x of StrV s \<Rightarrow> s | _ \<Rightarrow> [])"

text \<open>The auth fields as the specification describes them: a single \<open>szamlaagentkulcs\<close>
  element in token mode, else \<open>felhasznalo\<close> followed by \<open>jelszo\<close>.\<close>

definition auth_elements :: "client \<Rightarrow> int \<Rightarrow> string" where
  "auth_elements c k =
     (if useToken c
      then element k ''szamlaagentkulcs'' (escapeXMLString (credential_text (authToken (options c))))
      else element k ''felhasznalo'' (escapeXMLString (credential_text (user (options c))))
         @ element k ''jelszo'' (escapeXMLString (credential_text (password (options c)))))"

text \<open>The document has been built and begins with \<open>start\<close>.\<close>

definition begins_with :: "string \<Rightarrow> error + string \<Rightarrow> bool" where
  "begins_with start built = (case built of Inl e \<Rightarrow> False | Inr xml \<Rightarrow> prefix start xml)"

text \<open>The document has been built, the settings element comes first after the header
  \<open>hdr\<close>, at level 0 or 1, and the auth fields are its first children.\<close>

definition auth_first_in_settings :: "string \<Rightarrow> client \<Rightarrow> error + string \<Rightarrow> bool" where
  "auth_first_in_settings hdr c built =
     (begins_with (hdr @ ''<beallitasok>'' @ [nl] @ auth_elements c 1) built
      \<or> begins_with (hdr @ ''  <beallitasok>'' @ [nl] @ auth_elements c 2) built)"

text \<open>The text between the tags of an element whose content is no array.\<close>

definition content_text :: "numerics \<Rightarrow> xdata \<Rightarrow> string" where
  "content_text t val =
     (case val of DateV d \<Rightarrow> date_text t d | _ \<Rightarrow> escapeXMLString (scalar_text t val))"

text \<open>A credential that is given and not empty: a string with something left after
  trimming.\<close>

definition non_blank_string :: "xdata \<Rightarrow> bool" where
  "non_blank_string x = (case x of StrV s \<Rightarrow> trim s \<noteq> [] | _ \<Rightarrow> False)"

text \<open>What \<open>xml2obj\<close> finds along one dotted path: element 0 of the value its walk
  reaches, nothing when a segment is no own property.\<close>

definition path_value :: "js \<Rightarrow> string \<Rightarrow> js option" where
  "path_value res keyPath =
     (case walk res (split_dot keyPath) of
        Inr (Some p) \<Rightarrow> (case getProp p ''0'' of Inr v \<Rightarrow> Some v | Inl e \<Rightarrow> None)
      | _ \<Rightarrow> None)"





section \<open>The levels of the request documents\<close>

text \<open>A level the counter of \<open>pad\<close> reaches: a whole number from 0 to \<open>2^53\<close>. The
  levels of the request documents are such numbers, however deep the data is nested.\<close>

definition whole_level :: "jsnum \<Rightarrow> bool" where
  "whole_level n =
     (case n of Fin r \<Rightarrow> r = of_int \<lfloor>r\<rfloor> \<and> 0 \<le> r \<and> r \<le> 2 ^ 53 | _ \<Rightarrow> False)"

section \<open>Concrete inputs\<close>

definition user_options :: options_arg where
  "user_options = no_options\<lparr> arg_user := StrV ''demo'', arg_password := StrV ''secret'' \<rparr>"

definition token_options :: options_arg where
  "token_options = no_options\<lparr> arg_authToken := StrV ''token'' \<rparr>"

definition both_options :: options_arg where
  "both_options = user_options\<lparr> arg_authToken := StrV ''token'' \<rparr>"

definition user_client :: client where
  "user_client = \<lparr> options = merge_defaults (Some user_options), useToken = False \<rparr>"

definition token_client :: client where
  "token_client = \<lparr> options = merge_defaults (Some token_options), useToken = True \<rparr>"

definition download_client :: client where
  "download_client = setRequestInvoiceDownload token_client True"

definition v2_client :: client where
  "v2_client = \<lparr> options = merge_defaults (Some (token_options\<lparr>
       arg_requestInvoiceDownload := Some True, arg_responseVersion := Some 2 \<rparr>)),
     useToken = True \<rparr>"

definition no_call_options :: call_options where
  "no_call_options = \<lparr> opt_invoiceId = Undefined, opt_orderNumber = Undefined, opt_pdf = Undefined,
     opt_eInvoice = None, opt_requestInvoiceDownload = None, opt_taxNumber = Undefined,
     opt_additive = None \<rparr>"

definition invoice_options :: call_options where
  "invoice_options = no_call_options\<lparr> opt_invoiceId := StrV ''E-2024-1'' \<rparr>"

definition reverse_options :: call_options where
  "reverse_options = invoice_options\<lparr> opt_eInvoice := Some False,
     opt_requestInvoiceDownload := Some True \<rparr>"

text \<open>An engine for the examples: none of their strings reads as a number; \<open>2.5\<close> is
  their one number that is no safe integer, with its text and its successor; strings are
  built up to \<open>2^29 - 24\<close> characters.\<close>

definition example_numbers :: numerics where
  "example_numbers =
     \<lparr> toNumber = (\<lambda>s. NaN),
       numberText = (\<lambda>r. ''2.5''),
       plusOne = (\<lambda>r. Fin (7 / 2)),
       maxStringLength = 536870888 \<rparr>"

text \<open>Collaborators for the examples: a transport that answers every request with one
  response, a parser that yields one document, a URL decoder for messages without
  escapes (so the identity), no namespaces to strip, and a stand-in for the base64
  decoder, which reverses its input.\<close>

definition stub_env :: "response \<Rightarrow> js \<Rightarrow> env" where
  "stub_env httpResponse doc =
     \<lparr> parseString = (\<lambda>xml. Inr doc),
       removeNamespaces = (\<lambda>d. d),
       decodeURIComponent = Inr,
       numbers = example_numbers,
       base64 = rev,
       bufferFromObject = (\<lambda>v. Inl TypeError),
       post = (\<lambda>req. Inr httpResponse),
       now = Date 2024 2 7 1709809200000 \<rparr>"

text \<open>A parser that rejects every body.\<close>

definition no_parser :: "string \<Rightarrow> error + js" where
  "no_parser xml = Inl (ParseError ''not XML'')"

definition pdf_response :: response where
  "pdf_response = \<lparr> status = 200, statusText = ''OK'',
     headers = [''szlahu_szamlaszam'' \<mapsto> ''E-2024-1''], data = ''%PDF-1.4'' \<rparr>"

definition xml_response :: response where
  "xml_response = \<lparr> status = 200, statusText = ''OK'', headers = Map.empty,
     data = ''<valasz/>'' \<rparr>"

definition error_response :: response where
  "error_response = \<lparr> status = 200, statusText = ''OK'',
     headers = [''szlahu_error_code'' \<mapsto> ''57'', ''szlahu_error'' \<mapsto> ''Hibas+szamlaszam''],
     data = ''%PDF-1.4'' \<rparr>"

definition empty_code_response :: response where
  "empty_code_response = \<lparr> status = 200, statusText = ''OK'',
     headers = [''szlahu_error_code'' \<mapsto> [], ''szlahu_error'' \<mapsto> ''Hibas+szamlaszam''],
     data = ''%PDF-1.4'' \<rparr>"


definition v2_doc :: js where
  "v2_doc = JObj [(''xmlszamlavalasz'',
       JObj [(''sikeres'', JArr [JStr ''true'']), (''pdf'', JArr [JStr ''QUJD''])])]"

definition v2_doc_without_pdf :: js where
  "v2_doc_without_pdf = JObj [(''xmlszamlavalasz'', JObj [(''sikeres'', JArr [JStr ''true''])])]"

definition error_doc :: js where
  "error_doc = JObj [(''xmlszamlavalasz'',
       JObj [(''sikeres'', JArr [JStr ''false'']), (''hibakod'', JArr [JStr ''57'']),
             (''hibauzenet'', JArr [JStr ''Hiba''])])]"

definition invalid_taxpayer_doc :: js where
  "invalid_taxpayer_doc =
     JObj [(''QueryTaxpayerResponse'', JObj [(''taxpayerValidity'', JArr [JStr ''false''])])]"

text \<open>An answer that is no taxpayer document, and what the XML library makes of its
  body.\<close>

definition unavailable_response :: response where
  "unavailable_response = \<lparr> status = 200, statusText = ''OK'', headers = Map.empty,
     data = ''<html><body>Service unavailable</body></html>'' \<rparr>"

definition other_root_doc :: js where
  "other_root_doc = JObj [(''html'', JObj [(''body'', JArr [JStr ''Service unavailable''])])]"

definition valid_taxpayer_doc :: js where
  "valid_taxpayer_doc =
     JObj [(''QueryTaxpayerResponse'',
       JObj [(''taxpayerValidity'', JArr [JStr ''true'']),
             (''taxpayerData'', JArr [JObj [(''taxpayerName'', JArr [JStr ''Teszt Kft''])]])])]"

section \<open>Lemmas about the builder\<close>

lemma safe_small: "safe_integer 0" "safe_integer 1" "safe_integer 2"
  by (simp_all add: safe_integer_def)

lemma pad_loop_Fin:
  "r \<le> 2 ^ 53 \<Longrightarrow> pad_loop i (Fin r) str out = Inr (out @ concat (replicate (nat \<lceil>r\<rceil> - i) str))"
proof (induction i "Fin r" str out rule: pad_loop.induct)
  case (1 i str out)
  show ?case
  proof (cases "of_nat i < r")
    case True
    then have "int i < \<lceil>r\<rceil>" by (simp add: less_ceiling_iff)
    moreover from 1(2) have "\<lceil>r\<rceil> \<le> 2 ^ 53" by (simp add: ceiling_le_iff)
    ultimately have "int i < 2 ^ 53" and more: "nat \<lceil>r\<rceil> - i = Suc (nat \<lceil>r\<rceil> - (i + 1))"
      by linarith+
    then have small: "i < 2 ^ 53" by simp
    from True small have "pad_loop i (Fin r) str out = pad_loop (i + 1) (Fin r) str (out @ str)"
      by (subst pad_loop.simps) (simp add: less_num_def)
    also have "\<dots> = Inr ((out @ str) @ concat (replicate (nat \<lceil>r\<rceil> - (i + 1)) str))"
      using True small 1 by (simp add: less_num_def)
    finally show ?thesis using more by simp
  next
    case False
    then have "\<lceil>r\<rceil> \<le> int i" by (simp add: ceiling_le_iff)
    then have "nat \<lceil>r\<rceil> - i = 0" by linarith
    with False show ?thesis
      by (subst pad_loop.simps) (simp add: less_num_def)
  qed
qed

lemma pad_loop_beyond:
  "i \<le> 2 ^ 53 \<Longrightarrow> less_num (2 ^ 53) num \<Longrightarrow> pad_loop i num str out = Inl RangeError"
proof (induction i num str out rule: pad_loop.induct)
  case (1 i num str out)
  have here: "less_num i num"
    using 1(2,3) by (cases num) (auto simp: less_num_def)
  show ?case
  proof (cases "i < 2 ^ 53")
    case True
    with here 1 show ?thesis by (subst pad_loop.simps) simp
  next
    case False
    with here show ?thesis by (subst pad_loop.simps) simp
  qed
qed

lemma indent_1: "indent 1 = ''  ''"
  by (simp add: indent_def)

lemma indent_2: "indent 2 = ''    ''"
  by (simp add: indent_def eval_nat_numeral)

lemma pad_Fin:
  assumes "r \<le> 2 ^ 53"
  shows "pad (Fin r) None = Inr (indent \<lceil>r\<rceil>)" "pad (Fin r) (Some ''  '') = Inr (indent \<lceil>r\<rceil>)"
proof -
  have "nat \<lceil>r\<rceil> = 0" if "\<not> 0 < r"
    using that by (simp add: ceiling_le_iff)
  then show "pad (Fin r) None = Inr (indent \<lceil>r\<rceil>)"
    "pad (Fin r) (Some ''  '') = Inr (indent \<lceil>r\<rceil>)"
    using assms by (auto simp: pad_def padStr_def pad_loop_Fin indent_def less_num_def)
qed

lemma pad_beyond:
  "less_num (2 ^ 53) num \<Longrightarrow> pad num str = Inl RangeError"
  by (cases num) (auto simp: pad_def pad_loop_beyond less_num_def)

lemma collect_append:
  "collect (xs @ ys) =
     (case collect xs of
        Inl e \<Rightarrow> Inl e
      | Inr a \<Rightarrow> (case collect ys of Inl e \<Rightarrow> Inl e | Inr b \<Rightarrow> Inr (a @ b)))"
  by (induction xs) (auto split: sum.splits)

lemma collect_built:
  "(\<And>r. r \<in> set rs \<Longrightarrow> \<exists>s. r = Inr s) \<Longrightarrow> \<exists>s. collect rs = Inr s"
proof (induction rs)
  case Nil
  show ?case by simp
next
  case (Cons r rs)
  from Cons.prems [of r] obtain s where "r = Inr s" by auto
  moreover from Cons.IH Cons.prems obtain ss where "collect rs = Inr ss" by auto
  ultimately show ?case by simp
qed

lemma wrap_Items_level:
  "safe_integer r \<Longrightarrow> wrapWithElement t (Items items) (NumV (Fin r)) None =
     collect (map (\<lambda>item. wrapWithElement t (Name (fst item)) (snd item) (Some (Fin (r + 1)))) items)"
  by (simp add: wrapWithElement.simps [of _ "Items items"] Number_def or_num_def truthy_num_def
      add_one_def safe_small)

lemma wrap_Items_Undefined:
  "wrapWithElement t (Items items) Undefined None =
     collect (map (\<lambda>item. wrapWithElement t (Name (fst item)) (snd item) (Some (Fin 1))) items)"
  by (simp add: wrapWithElement.simps [of _ "Items items"] Number_def or_num_def truthy_num_def
      add_one_def safe_small)

lemma wrap_Name_level:
  "0 < r \<Longrightarrow> r \<le> 2 ^ 53 \<Longrightarrow> wrapWithElement t (Name n) d (Some (Fin r)) =
     (if d \<noteq> Undefined \<and> d \<noteq> Null then
        (case d of
           ArrV items \<Rightarrow>
             and_then (wrapWithElement t (Items items) (NumV (Fin r)) None) (\<lambda>inner.
             Inr (indent \<lceil>r\<rceil> @ ''<'' @ n @ ''>'' @ [nl] @ inner @ indent \<lceil>r\<rceil>
                    @ ''</'' @ n @ ''>'' @ [nl]))
         | _ \<Rightarrow> Inr (element \<lceil>r\<rceil> n (content_text t d)))
      else Inr [])"
  by (cases d; simp add: wrapWithElement.simps [of _ "Name n"] or_num_def truthy_num_def
      pad_Fin Let_def and_then_def element_def content_text_def split: sum.splits)

lemma wrap_Name_array:
  "items \<noteq> [] \<Longrightarrow> wrapWithElement t (Name n) (ArrV items) None =
     and_then
       (collect (map (\<lambda>item. wrapWithElement t (Name (fst item)) (snd item) (Some (Fin 1))) items))
       (\<lambda>inner. Inr (''<'' @ n @ ''>'' @ [nl] @ inner @ ''</'' @ n @ ''>'' @ [nl]))"
  by (simp add: wrapWithElement.simps [of _ "Name n"] Number_def or_num_def truthy_num_def
      pad_Fin indent_def wrap_Items_level safe_small and_then_def split: sum.splits)

lemma wrap_Name_array_level:
  "0 < r \<Longrightarrow> safe_integer r \<Longrightarrow> wrapWithElement t (Name n) (ArrV items) (Some (Fin r)) =
     and_then
       (collect (map (\<lambda>item. wrapWithElement t (Name (fst item)) (snd item) (Some (Fin (r + 1))))
          items))
       (\<lambda>inner. Inr (indent \<lceil>r\<rceil> @ ''<'' @ n @ ''>'' @ [nl] @ inner @ indent \<lceil>r\<rceil>
                       @ ''</'' @ n @ ''>'' @ [nl]))"
  by (simp add: wrap_Name_level wrap_Items_level safe_integer_def)

lemma wrap_string:
  "0 < r \<Longrightarrow> r \<le> 2 ^ 53 \<Longrightarrow>
     wrapWithElement t (Name n) (StrV s) (Some (Fin r)) = Inr (element \<lceil>r\<rceil> n (escapeXMLString s))"
  by (simp add: wrap_Name_level content_text_def scalar_text_def)

lemma whole_level_add_one:
  assumes "whole_level n"
  shows "whole_level (add_one t n)" "truthy_num (add_one t n)"
proof -
  from assms obtain r where n: "n = Fin r" and r: "r = of_int \<lfloor>r\<rfloor>" "0 \<le> r" "r \<le> 2 ^ 53"
    by (cases n) (auto simp: whole_level_def)
  show "whole_level (add_one t n)"
  proof (cases "r = 2 ^ 53")
    case True
    then show ?thesis using n by (simp add: add_one_def safe_integer_def whole_level_def)
  next
    case False
    with r have less: "r < 2 ^ 53" by simp
    with r have safe: "safe_integer r" by (simp add: safe_integer_def)
    from r(1) have "r + 1 = of_int (\<lfloor>r\<rfloor> + 1)" by simp
    then have whole: "r + 1 = of_int \<lfloor>r + 1\<rfloor>" by simp
    from r(1) less have "of_int \<lfloor>r\<rfloor> < (2 ^ 53 :: rat)" by simp
    then have "\<lfloor>r\<rfloor> < 2 ^ 53" by (simp only: of_int_less_numeral_power_cancel_iff)
    then have "\<lfloor>r\<rfloor> + 1 \<le> 2 ^ 53" by simp
    then have "(of_int (\<lfloor>r\<rfloor> + 1) :: rat) \<le> 2 ^ 53"
      by (simp only: of_int_le_numeral_power_cancel_iff)
    with r(1) have "r + 1 \<le> 2 ^ 53" by simp
    with n safe whole r(2) show ?thesis
      by (simp add: add_one_def whole_level_def)
  qed
  show "truthy_num (add_one t n)"
    using n r by (auto simp: add_one_def truthy_num_def safe_integer_def)
qed

lemma whole_level_pad: "whole_level n \<Longrightarrow> \<exists>s. pad n str = Inr s"
  by (cases n) (auto simp: whole_level_def pad_def less_num_def pad_loop_Fin)

lemma wrap_builds:
  "whole_level (or_num (case il of None \<Rightarrow> Number t d | Some l \<Rightarrow> or_num l (Number t d)) (Fin 0))
     \<Longrightarrow> \<exists>s. wrapWithElement t name d il = Inr s"
proof (induction t name d il rule: wrapWithElement.induct)
  case (1 t name d il)
  define lvl where "lvl = or_num (case il of None \<Rightarrow> Number t d | Some l \<Rightarrow> or_num l (Number t d)) (Fin 0)"
  from 1(3) have whole: "whole_level lvl" by (simp add: lvl_def)
  have unfolded: "wrapWithElement t name d il =
      (case name of
         Items items \<Rightarrow>
           collect (map (\<lambda>item. wrapWithElement t (Name (fst item)) (snd item)
                                  (Some (add_one t lvl))) items)
       | Name n \<Rightarrow>
           if d \<noteq> Undefined \<and> d \<noteq> Null then
             (case pad lvl None of
                Inl e \<Rightarrow> Inl e
              | Inr p \<Rightarrow>
                  (case (case d of
                           ArrV items \<Rightarrow>
                             (case wrapWithElement t (Items items) (NumV lvl) None of
                                Inl e \<Rightarrow> Inl e
                              | Inr inner \<Rightarrow>
                                  (case pad lvl (Some ''  '') of
                                     Inl e \<Rightarrow> Inl e
                                   | Inr p' \<Rightarrow> Inr ([nl] @ inner @ p')))
                         | DateV d' \<Rightarrow> Inr (date_text t d')
                         | _ \<Rightarrow> Inr (escapeXMLString (scalar_text t d))) of
                     Inl e \<Rightarrow> Inl e
                   | Inr body \<Rightarrow>
                       Inr (p @ ''<'' @ n @ ''>'' @ body @ ''</'' @ n @ ''>'' @ [nl])))
           else Inr [])"
    unfolding lvl_def by (subst wrapWithElement.simps, unfold Let_def, rule refl)
  from whole_level_pad [OF whole] obtain p where p: "pad lvl None = Inr p" by blast
  from whole_level_pad [OF whole] obtain p' where p': "pad lvl (Some ''  '') = Inr p'" by blast
  show ?case
  proof (cases name)
    case (Items items)
    have next_level: "or_num (case Some (add_one t lvl) of None \<Rightarrow> Number t d'
        | Some l \<Rightarrow> or_num l (Number t d')) (Fin 0) = add_one t lvl" for d'
      using whole_level_add_one(2) [OF whole, of t] by (simp add: or_num_def)
    have "\<exists>s. wrapWithElement t (Name (fst item)) (snd item) (Some (add_one t lvl)) = Inr s"
      if "item \<in> set items" for item
      using 1(2) [OF lvl_def Items that] whole_level_add_one(1) [OF whole, of t]
      by (simp only: next_level)
    then have "\<exists>s. collect (map (\<lambda>item. wrapWithElement t (Name (fst item)) (snd item)
        (Some (add_one t lvl))) items) = Inr s"
      by (intro collect_built) auto
    with Items show ?thesis
      unfolding unfolded by simp
  next
    case (Name n)
    show ?thesis
    proof (cases d)
      case (ArrV items)
      have same: "or_num (case None of None \<Rightarrow> Number t (NumV lvl)
          | Some l \<Rightarrow> or_num l (Number t (NumV lvl))) (Fin 0) = lvl \<or>
        or_num (case None of None \<Rightarrow> Number t (NumV lvl)
          | Some l \<Rightarrow> or_num l (Number t (NumV lvl))) (Fin 0) = Fin 0"
        by (simp add: Number_def or_num_def)
      have zero: "whole_level (Fin 0)" by (simp add: whole_level_def)
      from same whole zero
      have "whole_level (or_num (case None of None \<Rightarrow> Number t (NumV lvl)
          | Some l \<Rightarrow> or_num l (Number t (NumV lvl))) (Fin 0))"
        by auto
      from 1(1) [OF lvl_def Name _ p ArrV this] ArrV
      obtain inner where "wrapWithElement t (Items items) (NumV lvl) None = Inr inner"
        by auto
      with Name ArrV p p' show ?thesis
        unfolding unfolded by simp
    qed (use Name p in \<open>unfold unfolded, simp_all\<close>)
  qed
qed

lemma wrap_builds_level:
  assumes "whole_level (Fin r)" and "r \<noteq> 0"
  shows "\<exists>s. wrapWithElement t name d (Some (Fin r)) = Inr s"
  using assms by (intro wrap_builds) (simp add: or_num_def truthy_num_def)

lemma wrap_builds_array: "\<exists>s. wrapWithElement t name (ArrV items) None = Inr s"
  by (intro wrap_builds) (simp add: or_num_def truthy_num_def Number_def whole_level_def)

lemma wrap_builds_Undefined: "\<exists>s. wrapWithElement t name Undefined None = Inr s"
  by (intro wrap_builds) (simp add: or_num_def truthy_num_def Number_def whole_level_def)

lemma whole_small: "whole_level (Fin 1)" "whole_level (Fin 2)"
  by (simp_all add: whole_level_def)

lemma items_build:
  assumes "whole_level (Fin r)" and "r \<noteq> 0"
  shows "\<exists>s. collect (map (\<lambda>item. wrapWithElement t (Name (fst item)) (snd item) (Some (Fin r)))
           items) = Inr s"
  using wrap_builds_level [OF assms] by (intro collect_built) auto

lemma one_level: "\<exists>s. wrapWithElement t name d (Some (Fin 1)) = Inr s"
  using wrap_builds_level [OF whole_small(1)] by simp

lemma and_then_builds:
  assumes "\<exists>x. r = Inr x" and "\<And>x. \<exists>y. f x = Inr y"
  shows "\<exists>y. and_then r f = Inr y"
  using assms by (auto simp: and_then_def)

lemma element_length: "2 * nat k \<le> length (element k nm s)"
  by (simp add: element_def indent_def length_concat sum_list_replicate)

lemma level_within:
  fixes r :: rat
  assumes "length (element \<lceil>r\<rceil> nm s) \<le> limit" and "limit < 2 ^ 53"
  shows "r \<le> 2 ^ 53"
proof -
  from element_length [of "\<lceil>r\<rceil>" nm s] assms have "nat \<lceil>r\<rceil> < 2 ^ 53" by linarith
  then have "int (nat \<lceil>r\<rceil>) < int (2 ^ 53)" by (simp only: of_nat_less_iff)
  moreover have "int (2 ^ 53) = 2 ^ 53" by simp
  moreover have "\<lceil>r\<rceil> \<le> int (nat \<lceil>r\<rceil>)" by simp
  ultimately have "\<lceil>r\<rceil> \<le> 2 ^ 53" by linarith
  then have "(of_int \<lceil>r\<rceil> :: rat) \<le> of_int (2 ^ 53)" by (simp only: of_int_le_iff)
  moreover have "r \<le> of_int \<lceil>r\<rceil>" by (rule le_of_int_ceiling)
  ultimately show ?thesis by simp
qed

section \<open>Lemmas about the client\<close>

lemma string_longer_than_1_non_blank: "string_longer_than_1 x \<Longrightarrow> non_blank_string x"
  by (cases x) (auto simp: string_longer_than_1_def non_blank_string_def)

lemma user_client_constructed: "Client_constructor (Some user_options) = Inr user_client"
  by (simp add: Client_constructor_def user_options_def no_options_def user_client_def
      merge_defaults_def string_longer_than_1_def trim_def is_space_def)

lemma token_client_constructed: "Client_constructor (Some token_options) = Inr token_client"
  by (simp add: Client_constructor_def token_options_def no_options_def token_client_def
      merge_defaults_def string_longer_than_1_def trim_def is_space_def)

lemma constructed_credentials:
  assumes "Client_constructor a = Inr c"
  shows "if useToken c then (\<exists>s. authToken (options c) = StrV s)
         else (\<exists>u p. user (options c) = StrV u \<and> password (options c) = StrV p)"
  using assms
  by (auto simp: Client_constructor_def Let_def string_longer_than_1_def
      split: if_splits xdata.splits)

lemma auth_items:
  assumes "Client_constructor a = Inr c" and "0 < r" and "r \<le> 2 ^ 53"
  shows "collect (map (\<lambda>item. wrapWithElement t (Name (fst item)) (snd item) (Some (Fin r)))
           (getAuthFields c @ rest)) =
         and_then
           (collect (map (\<lambda>item. wrapWithElement t (Name (fst item)) (snd item) (Some (Fin r)))
              rest))
           (\<lambda>others. Inr (auth_elements c \<lceil>r\<rceil> @ others))"
proof -
  have "collect (map (\<lambda>item. wrapWithElement t (Name (fst item)) (snd item) (Some (Fin r)))
      (getAuthFields c)) = Inr (auth_elements c \<lceil>r\<rceil>)"
    using constructed_credentials [OF assms(1)] assms(2,3)
    by (auto simp: getAuthFields_def auth_elements_def wrap_string credential_text_def)
  then show ?thesis
    by (simp add: collect_append and_then_def split: sum.splits)
qed

lemma settings_first:
  assumes "Client_constructor a = Inr c" and "0 < r" and "safe_integer r"
  shows "\<exists>others. wrapWithElement t (Name ''beallitasok'') (ArrV (getAuthFields c @ rest))
           (Some (Fin r)) =
         Inr (indent \<lceil>r\<rceil> @ ''<beallitasok>'' @ [nl] @ auth_elements c \<lceil>r + 1\<rceil> @ others)"
proof -
  from assms(3) have whole: "whole_level (Fin (r + 1))" and bound: "r + 1 \<le> 2 ^ 53"
    using whole_level_add_one(1) [of "Fin r" t] assms(2)
    by (auto simp: whole_level_def safe_integer_def add_one_def)
  from assms(2) have positive: "0 < r + 1" "r + 1 \<noteq> 0" by simp_all
  from items_build [OF whole positive(2), of t rest] obtain s
    where "collect (map (\<lambda>item. wrapWithElement t (Name (fst item)) (snd item)
             (Some (Fin (r + 1)))) rest) = Inr s"
    by blast
  then show ?thesis
    using assms(2,3)
    by (simp add: wrap_Name_array_level auth_items [OF assms(1) positive(1) bound] and_then_def
        del: map_append)
qed

lemma getInvoiceData_xml_builds: "\<exists>xml. getInvoiceData_xml env c opts = Inr xml"
  unfolding getInvoiceData_xml_def
  by (intro and_then_builds wrap_builds_Undefined) simp

lemma reverseInvoice_xml_builds: "\<exists>xml. reverseInvoice_xml env c opts = Inr xml"
  unfolding reverseInvoice_xml_def
  by (intro and_then_builds wrap_builds_array) simp

lemma issueInvoice_xml_builds: "\<exists>xml. issueInvoice_xml env c invoice = Inr xml"
  unfolding issueInvoice_xml_def
  by (intro and_then_builds one_level) simp

lemma queryTaxPayer_xml_builds: "\<exists>xml. queryTaxPayer_xml env c taxPayerId = Inr xml"
  unfolding queryTaxPayer_xml_def
  by (intro and_then_builds one_level) simp

lemma registerCreditEntry_xml_builds: "\<exists>xml. registerCreditEntry_xml env c opts g es = Inr xml"
  unfolding registerCreditEntry_xml_def
  by (intro and_then_builds one_level) simp

lemma show_nat_0: "show_nat 0 = ''0''"
  by (simp add: show_nat.simps digit_char_def)

lemma getProp_first:
  "getProp (JArr (k # ks)) ''0'' = Inr k" "getProp (JArr []) ''0'' = Inr JUndefined"
  by (simp_all add: getProp_def array_index_def upt_conv_Cons show_nat_0 del: upt_Suc)

lemma getProp_JObj:
  "getProp (JObj kvs) k = Inr (case map_of kvs k of None \<Rightarrow> JUndefined | Some v \<Rightarrow> v)"
  by (simp add: getProp_def)

lemma opt_first_array: "opt_first (JArr (k # ks)) = k" "opt_first JUndefined = JUndefined"
  by (simp_all add: opt_first_def getProp_first)

lemma eight_digits: "eight_digit_number t (NumV (Fin 12345678))"
  by (simp add: eight_digit_number_def show_num_def safe_integer_def show_int_def
      show_nat.simps digit_char_def is_digit_def)

section \<open>The header error check\<close>

text \<open>
  C1, as the specification states it: every response with status 200 whose headers contain
  the error-code field makes every operation fail. It does not hold: the code tests the
  header for truth, and an error-code header with an empty value is passed over. Here
  \<open>reverseInvoice\<close> returns its result with the body as the pdf.
\<close>
theorem empty_error_code_counterexample:
  "headers empty_code_response ''szlahu_error_code'' = Some []
   \<and> status empty_code_response = 200
   \<and> reverseInvoice (stub_env empty_code_response JNull) user_client reverse_options =
       Inr \<lparr> res_invoiceId = None, res_netTotal = None, res_grossTotal = None,
             res_customerAccountUrl = None, res_pdf = Some ''%PDF-1.4'' \<rparr>"
proof -
  obtain xml where "reverseInvoice_xml (stub_env empty_code_response JNull) user_client
      reverse_options = Inr xml"
    using reverseInvoice_xml_builds by blast
  then show ?thesis
    by (simp add: reverseInvoice_def reverse_options_def invoice_options_def no_call_options_def
        string_longer_than_1_def trim_def is_space_def sendRequest_def sendRequest_body_def
        error_code_header_def stub_env_def empty_code_response_def summary_def and_then_def)
qed

text \<open>
  C1, amended: when the transport answers with status 200, a non-empty error-code header
  and an error-message header that decodes, \<open>_sendRequest\<close> fails with an \<open>Error\<close> whose
  message is the decoded message header (\<open>+\<close> read as a space) and whose code is the
  error-code header, and so does every operation whose own validation passes. The body
  is not parsed: the result is the same whatever the parser \<open>p\<close> is.
\<close>
theorem header_error_precedes_body:
  assumes "\<And>req. post env req = Inr httpResponse"
    and "status httpResponse = 200"
    and "headers httpResponse ''szlahu_error_code'' = Some code" and "code \<noteq> []"
    and "headers httpResponse ''szlahu_error'' = Some msg"
    and "decodeURIComponent env (plus_to_space msg) = Inr m"
  shows "sendRequest (env\<lparr> parseString := p \<rparr>) c field xml isBinaryDownload =
           Inl (Error m (JStr code))
    \<and> (string_longer_than_1 (opt_invoiceId opts) \<or> string_longer_than_1 (opt_orderNumber opts)
         \<longrightarrow> getInvoiceData (env\<lparr> parseString := p \<rparr>) c opts = Inl (Error m (JStr code)))
    \<and> (string_longer_than_1 (opt_invoiceId opts) \<and> opt_eInvoice opts \<noteq> None
           \<and> opt_requestInvoiceDownload opts \<noteq> None
         \<longrightarrow> reverseInvoice (env\<lparr> parseString := p \<rparr>) c opts = Inl (Error m (JStr code)))
    \<and> issueInvoice (env\<lparr> parseString := p \<rparr>) c invoice = Inl (Error m (JStr code))
    \<and> (eight_digit_number (numbers env) taxPayerId
         \<longrightarrow> queryTaxPayer (env\<lparr> parseString := p \<rparr>) c taxPayerId = Inl (Error m (JStr code)))
    \<and> (string_longer_than_1 (opt_invoiceId opts) \<and> es \<noteq> []
           \<and> list_all (\<lambda>entry. entry \<noteq> None) es
         \<longrightarrow> registerCreditEntry (env\<lparr> parseString := p \<rparr>) c opts g (Some es) =
               Inl (Error m (JStr code)))"
proof -
  have send: "sendRequest (env\<lparr> parseString := p \<rparr>) c' f x b = Inl (Error m (JStr code))"
    for c' f x b
    using assms by (simp add: sendRequest_def error_code_header_def)
  obtain x1 x2 x3 x4 x5 where built:
    "getInvoiceData_xml (env\<lparr> parseString := p \<rparr>) c opts = Inr x1"
    "reverseInvoice_xml (env\<lparr> parseString := p \<rparr>) c opts = Inr x2"
    "issueInvoice_xml (env\<lparr> parseString := p \<rparr>) c invoice = Inr x3"
    "queryTaxPayer_xml (env\<lparr> parseString := p \<rparr>) c taxPayerId = Inr x4"
    "registerCreditEntry_xml (env\<lparr> parseString := p \<rparr>) c opts g es = Inr x5"
    using getInvoiceData_xml_builds reverseInvoice_xml_builds issueInvoice_xml_builds
      queryTaxPayer_xml_builds registerCreditEntry_xml_builds
    by metis
  show ?thesis
    by (simp add: send built getInvoiceData_def reverseInvoice_def issueInvoice_def
        queryTaxPayer_def registerCreditEntry_def and_then_def)
qed

theorem header_error_precedes_body_witness:
  "sendRequest ((stub_env error_response JNull)\<lparr> parseString := no_parser \<rparr>) user_client
       ''action-szamla_agent_xml'' ''<xmlszamlaxml/>'' False =
     Inl (Error ''Hibas szamlaszam'' (JStr ''57''))
   \<and> getInvoiceData ((stub_env error_response JNull)\<lparr> parseString := no_parser \<rparr>) user_client
       reverse_options = Inl (Error ''Hibas szamlaszam'' (JStr ''57''))
   \<and> reverseInvoice ((stub_env error_response JNull)\<lparr> parseString := no_parser \<rparr>) user_client
       reverse_options = Inl (Error ''Hibas szamlaszam'' (JStr ''57''))
   \<and> issueInvoice ((stub_env error_response JNull)\<lparr> parseString := no_parser \<rparr>) user_client
       (\<lambda>k. ''<fejlec/>'') = Inl (Error ''Hibas szamlaszam'' (JStr ''57''))
   \<and> queryTaxPayer ((stub_env error_response JNull)\<lparr> parseString := no_parser \<rparr>) user_client
       (NumV (Fin 12345678)) = Inl (Error ''Hibas szamlaszam'' (JStr ''57''))
   \<and> registerCreditEntry ((stub_env error_response JNull)\<lparr> parseString := no_parser \<rparr>)
       user_client reverse_options (\<lambda>e. e) (Some [Some ''<kifizetes/>'']) =
     Inl (Error ''Hibas szamlaszam'' (JStr ''57''))"
proof -
  have answer: "post (stub_env error_response JNull) req = Inr error_response" for req
    by (simp add: stub_env_def)
  have ok: "status error_response = 200"
    and code: "headers error_response ''szlahu_error_code'' = Some ''57''" "''57'' \<noteq> []"
    and msg: "headers error_response ''szlahu_error'' = Some ''Hibas+szamlaszam''"
    by (simp_all add: error_response_def)
  have decoded: "decodeURIComponent (stub_env error_response JNull)
      (plus_to_space ''Hibas+szamlaszam'') = Inr ''Hibas szamlaszam''"
    by (simp add: stub_env_def plus_to_space_def)
  have valid: "string_longer_than_1 (opt_invoiceId reverse_options)"
      "opt_eInvoice reverse_options \<noteq> None" "opt_requestInvoiceDownload reverse_options \<noteq> None"
    by (simp_all add: reverse_options_def invoice_options_def no_call_options_def
        string_longer_than_1_def trim_def is_space_def)
  from header_error_precedes_body [OF answer ok code msg decoded,
      where p = no_parser and c = user_client and field = "''action-szamla_agent_xml''"
        and xml = "''<xmlszamlaxml/>''" and isBinaryDownload = False
        and opts = reverse_options and invoice = "\<lambda>k. ''<fejlec/>''"
        and taxPayerId = "NumV (Fin 12345678)" and es = "[Some ''<kifizetes/>'']"
        and g = "\<lambda>e. e"]
    valid eight_digits
  show ?thesis by simp
qed

section \<open>The projector\<close>












section \<open>The request documents\<close>

text \<open>
  C3. \<open>registerCreditEntry\<close> called with \<open>additive: false\<close>: the request carries
  \<open>additiv\<close> with the text \<open>true\<close>, not the value the caller gave.
\<close>
theorem registerCreditEntry_additive_false:
  "registerCreditEntry_xml env token_client
     (no_call_options\<lparr> opt_invoiceId := StrV ''E-2024-1'', opt_additive := Some False \<rparr>)
     g [Some e] =
   Inr (getXmlHeader ''xmlszamlakifiz'' ''agentkifiz'' @
        ''  <beallitasok>'' @ [nl] @
        ''    <szamlaagentkulcs>token</szamlaagentkulcs>'' @ [nl] @
        ''    <szamlaszam>E-2024-1</szamlaszam>'' @ [nl] @
        ''    <adoszam></adoszam>'' @ [nl] @
        ''    <additiv>true</additiv>'' @ [nl] @
        ''  </beallitasok>'' @ [nl] @
        g e @
        ''</xmlszamlakifiz>'')"
  unfolding registerCreditEntry_xml_def
  by (simp add: wrap_Name_array_level wrap_string safe_small element_def indent_1 indent_2
      getAuthFields_def and_then_def
      token_client_def merge_defaults_def token_options_def no_options_def no_call_options_def
      or_data_def truthy_data_def or_flag_def show_bool_def escapeXMLString_def
      replaceXMLChar_def)

lemma registerCreditEntry_additive_ignored:
  "registerCreditEntry_xml env c (opts\<lparr> opt_additive := a \<rparr>) g es =
   registerCreditEntry_xml env c (opts\<lparr> opt_additive := Some True \<rparr>) g es"
  by (cases a) (simp_all add: registerCreditEntry_xml_def or_flag_def)

section \<open>Validation\<close>

text \<open>
  C4, as the specification states it: construction fails when both credential modes are
  supplied. It does not hold: with a token and a user and password, all three valid, the
  constructor returns a client in token mode.
\<close>

theorem Client_constructor_both_modes_counterexample:
  "Client_constructor (Some both_options) =
     Inr \<lparr> options = merge_defaults (Some both_options), useToken = True \<rparr>
   \<and> string_longer_than_1 (arg_authToken both_options)
   \<and> string_longer_than_1 (arg_user both_options)
   \<and> string_longer_than_1 (arg_password both_options)"
  by (simp add: Client_constructor_def both_options_def user_options_def no_options_def
      merge_defaults_def string_longer_than_1_def trim_def is_space_def)

text \<open>
  C4, amended: construction succeeds whenever the token, or else both the user and the
  password, are strings with more than one character after trimming, also when both modes
  are supplied, the token mode then being chosen; construction fails whenever the token
  is not a non-blank string and the user and password are not both non-blank strings.
\<close>

theorem Client_constructor_credentials:
  "(string_longer_than_1 (arg_authToken a)
      \<or> (string_longer_than_1 (arg_user a) \<and> string_longer_than_1 (arg_password a))
    \<longrightarrow> Client_constructor (Some a) =
          Inr \<lparr> options = merge_defaults (Some a),
                useToken = string_longer_than_1 (arg_authToken a) \<rparr>)
   \<and> (\<not> non_blank_string (arg_authToken a)
      \<and> \<not> (non_blank_string (arg_user a) \<and> non_blank_string (arg_password a))
    \<longrightarrow> Client_constructor (Some a) \<in>
          {Inl (AssertionError ''Valid User field missing form client options''),
           Inl (AssertionError ''Valid Password field missing form client options'')})"
  using string_longer_than_1_non_blank [of "arg_authToken a"]
    string_longer_than_1_non_blank [of "arg_user a"]
    string_longer_than_1_non_blank [of "arg_password a"]
  by (auto simp: Client_constructor_def merge_defaults_def Let_def)

theorem Client_constructor_credentials_witness:
  "Client_constructor (Some token_options) =
     Inr \<lparr> options = merge_defaults (Some token_options), useToken = True \<rparr>
   \<and> Client_constructor (Some user_options) =
     Inr \<lparr> options = merge_defaults (Some user_options), useToken = False \<rparr>
   \<and> Client_constructor (Some no_options) =
     Inl (AssertionError ''Valid User field missing form client options'')"
proof -
  have token: "string_longer_than_1 (arg_authToken token_options)"
    and pair: "string_longer_than_1 (arg_user user_options)"
      "string_longer_than_1 (arg_password user_options)"
      "\<not> string_longer_than_1 (arg_authToken user_options)"
    and none: "\<not> non_blank_string (arg_authToken no_options)"
      "\<not> non_blank_string (arg_user no_options)"
    by (simp_all add: token_options_def user_options_def no_options_def
        string_longer_than_1_def non_blank_string_def trim_def is_space_def)
  have user_missing: "Client_constructor (Some no_options) \<noteq>
      Inl (AssertionError ''Valid Password field missing form client options'')"
    by (simp add: Client_constructor_def no_options_def merge_defaults_def
        string_longer_than_1_def)
  from Client_constructor_credentials [of token_options]
    Client_constructor_credentials [of user_options]
    Client_constructor_credentials [of no_options]
    token pair none user_missing
  show ?thesis by simp
qed

text \<open>
  C5. \<open>getInvoiceData\<close> called with the order number \<open>5\<close>, a non-empty trimmed string,
  and no invoice id: the assertion fails, whatever the collaborators and the client.
\<close>
theorem getInvoiceData_one_character:
  "getInvoiceData env c (no_call_options\<lparr> opt_orderNumber := StrV ''5'' \<rparr>) =
     Inl (AssertionError ''Either invoiceId or orderNumber must be specified'')"
  by (simp add: getInvoiceData_def no_call_options_def string_longer_than_1_def trim_def
      is_space_def)

section \<open>Decoding the responses\<close>

lemma taxpayer_details_valid:
  "taxpayer_details b = Inr r \<Longrightarrow> getProp r ''taxpayerValidity'' = Inr (JBool True)"
  by (auto simp: taxpayer_details_def and_then_def Let_def getProp_def split: sum.splits)

lemma sendRequest_passes:
  assumes "getProp doc ''xmlszamlavalasz'' = Inr valasz"
    and "\<not> truthy valasz \<or> getProp valasz ''hibakod'' = Inr JUndefined"
    and "status r = 200" and "error_code_header r = None"
  shows "sendRequest (stub_env r doc) c field xml False = Inr r"
  using assms
  by (auto simp: sendRequest_def sendRequest_body_def stub_env_def truthy_def)

text \<open>
  When the answer to \<open>queryTaxPayer\<close> has passed the transport's checks and its
  document, namespaces stripped, has the root \<open>QueryTaxpayerResponse\<close>, the operation
  returns exactly \<open>{taxpayerValidity: false}\<close> if and only if the first element of
  \<open>taxpayerValidity\<close> is not the string \<open>true\<close> (it may be \<open>false\<close>, absent, or
  anything else); with the string \<open>true\<close> it goes on to the taxpayer's details, whose
  result carries \<open>taxpayerValidity: true\<close>.
\<close>

lemma queryTaxPayer_with_root:
  assumes "eight_digit_number (numbers env) taxPayerId"
    and "and_then (queryTaxPayer_xml env c taxPayerId)
           (\<lambda>xml. sendRequest env c ''action-szamla_agent_taxpayer'' xml False) = Inr response"
    and "parseString env (data response) = Inr parsedBody"
    and "getProp (removeNamespaces env parsedBody) ''QueryTaxpayerResponse'' = Inr body"
    and "getProp body ''taxpayerValidity'' = Inr leaf"
  shows "(opt_first leaf \<noteq> JStr ''true'' \<longrightarrow>
            queryTaxPayer env c taxPayerId = Inr (JObj [(''taxpayerValidity'', JBool False)]))
       \<and> (opt_first leaf = JStr ''true'' \<longrightarrow>
            queryTaxPayer env c taxPayerId = taxpayer_details body
            \<and> queryTaxPayer env c taxPayerId \<noteq> Inr (JObj [(''taxpayerValidity'', JBool False)])
            \<and> (\<forall>r. queryTaxPayer env c taxPayerId = Inr r \<longrightarrow>
                  getProp r ''taxpayerValidity'' = Inr (JBool True)))"
proof -
  from assms(2) obtain xml where "queryTaxPayer_xml env c taxPayerId = Inr xml"
    and "sendRequest env c ''action-szamla_agent_taxpayer'' xml False = Inr response"
    by (auto simp: and_then_def split: sum.splits)
  then have q: "queryTaxPayer env c taxPayerId =
      (if opt_first leaf \<noteq> JStr ''true'' then Inr (JObj [(''taxpayerValidity'', JBool False)])
       else taxpayer_details body)"
    using assms(1,3,4,5) by (simp add: queryTaxPayer_def queryTaxPayer_decode_def and_then_def)
  have "taxpayer_details body \<noteq> Inr (JObj [(''taxpayerValidity'', JBool False)])"
    using taxpayer_details_valid [of body "JObj [(''taxpayerValidity'', JBool False)]"]
    by (auto simp: getProp_def)
  with q taxpayer_details_valid [of body] show ?thesis by auto
qed

lemma queryTaxPayer_with_root_examples:
  "queryTaxPayer (stub_env xml_response invalid_taxpayer_doc) user_client (NumV (Fin 12345678)) =
     Inr (JObj [(''taxpayerValidity'', JBool False)])
   \<and> queryTaxPayer (stub_env xml_response valid_taxpayer_doc) user_client (NumV (Fin 12345678)) =
     Inr (JObj [(''taxpayerValidity'', JBool True), (''taxpayerId'', JNull), (''vatCode'', JNull),
                (''countyCode'', JNull), (''taxpayerName'', JStr ''Teszt Kft''),
                (''taxpayerShortName'', JNull), (''address'', JNull)])"
proof -
  have ok: "status xml_response = 200" "error_code_header xml_response = None"
    by (simp_all add: xml_response_def error_code_header_def)
  have send: "and_then (queryTaxPayer_xml (stub_env xml_response doc) user_client taxPayerId)
      (\<lambda>xml. sendRequest (stub_env xml_response doc) user_client ''action-szamla_agent_taxpayer''
                xml False) = Inr xml_response"
    if "getProp doc ''xmlszamlavalasz'' = Inr JUndefined" for doc taxPayerId
    using sendRequest_passes [OF that _ ok]
      queryTaxPayer_xml_builds [of "stub_env xml_response doc" user_client taxPayerId]
    by (auto simp: truthy_def and_then_def)
  have parse: "parseString (stub_env xml_response doc) (data xml_response) = Inr doc" for doc
    by (simp add: stub_env_def)
  have 1: "queryTaxPayer (stub_env xml_response invalid_taxpayer_doc) user_client
      (NumV (Fin 12345678)) = Inr (JObj [(''taxpayerValidity'', JBool False)])"
    using queryTaxPayer_with_root [OF eight_digits send parse,
        of invalid_taxpayer_doc "JObj [(''taxpayerValidity'', JArr [JStr ''false''])]"
           "JArr [JStr ''false'']"]
    by (simp add: invalid_taxpayer_doc_def getProp_JObj stub_env_def opt_first_array)
  have 2: "queryTaxPayer (stub_env xml_response valid_taxpayer_doc) user_client
      (NumV (Fin 12345678)) =
      Inr (JObj [(''taxpayerValidity'', JBool True), (''taxpayerId'', JNull), (''vatCode'', JNull),
                (''countyCode'', JNull), (''taxpayerName'', JStr ''Teszt Kft''),
                (''taxpayerShortName'', JNull), (''address'', JNull)])"
    using queryTaxPayer_with_root [OF eight_digits send parse,
        of valid_taxpayer_doc
           "JObj [(''taxpayerValidity'', JArr [JStr ''true'']),
             (''taxpayerData'', JArr [JObj [(''taxpayerName'', JArr [JStr ''Teszt Kft''])]])]"
           "JArr [JStr ''true'']"]
    by (simp add: valid_taxpayer_doc_def getProp_JObj stub_env_def opt_first_array
        taxpayer_details_def and_then_def first_or_null_def or_js_def truthy_def
        extractAddress_def)
  from 1 2 show ?thesis by simp
qed

text \<open>
  C6. \<open>queryTaxPayer\<close> on an answer with status 200 and no error header whose document
  is no taxpayer document: there is no \<open>QueryTaxpayerResponse\<close> root, so the
  \<open>taxpayerValidity\<close> leaf is absent, and the operation raises a \<open>TypeError\<close> where
  an absent leaf is to give \<open>{taxpayerValidity: false}\<close>. The root is read without the
  guard that the reads below it have.
\<close>

theorem queryTaxPayer_without_root:
  "status unavailable_response = 200
   \<and> headers unavailable_response ''szlahu_error_code'' = None
   \<and> getProp (removeNamespaces (stub_env unavailable_response other_root_doc) other_root_doc)
       ''QueryTaxpayerResponse'' = Inr JUndefined
   \<and> queryTaxPayer (stub_env unavailable_response other_root_doc) user_client
       (NumV (Fin 12345678)) = Inl TypeError"
proof -
  have ok: "status unavailable_response = 200" "error_code_header unavailable_response = None"
    "headers unavailable_response ''szlahu_error_code'' = None"
    by (simp_all add: unavailable_response_def error_code_header_def)
  have root: "getProp
      (removeNamespaces (stub_env unavailable_response other_root_doc) other_root_doc)
      ''QueryTaxpayerResponse'' = Inr JUndefined"
    by (simp add: stub_env_def other_root_doc_def getProp_JObj)
  have passes: "sendRequest (stub_env unavailable_response other_root_doc) user_client
      ''action-szamla_agent_taxpayer'' xml False = Inr unavailable_response" for xml
    by (rule sendRequest_passes [OF _ _ ok(1,2), where valasz = JUndefined])
      (simp_all add: other_root_doc_def getProp_JObj truthy_def)
  obtain xml where "queryTaxPayer_xml (stub_env unavailable_response other_root_doc) user_client
      (NumV (Fin 12345678)) = Inr xml"
    using queryTaxPayer_xml_builds by blast
  moreover have "queryTaxPayer_decode (stub_env unavailable_response other_root_doc)
      unavailable_response = Inl TypeError"
    by (simp add: queryTaxPayer_decode_def and_then_def stub_env_def other_root_doc_def
        getProp_JObj getProp_def)
  ultimately have "queryTaxPayer (stub_env unavailable_response other_root_doc) user_client
      (NumV (Fin 12345678)) = Inl TypeError"
    by (simp add: queryTaxPayer_def eight_digits passes and_then_def)
  with ok root show ?thesis by simp
qed

text \<open>
  C7. Once the request of \<open>issueInvoice\<close> has come back through \<open>_sendRequest\<close>: without
  \<open>requestInvoiceDownload\<close> the result has no \<open>pdf\<close>; with it and response version 1 the
  \<open>pdf\<close> is the whole body; with it and version 2 the \<open>pdf\<close> is the base64 decoding of
  the string found at the path \<open>xmlszamlavalasz.pdf\<close>, and a document without that path
  makes the operation fail.
\<close>
theorem issueInvoice_pdf:
  assumes "and_then (issueInvoice_xml env c invoice)
             (\<lambda>xml. sendRequest env c ''action-xmlagentxmlfile'' xml
                       (responseVersion (options c) = 1)) = Inr httpResponse"
  shows "(\<not> requestInvoiceDownload (options c) \<longrightarrow>
            issueInvoice env c invoice = Inr (summary httpResponse)
            \<and> res_pdf (summary httpResponse) = None)
       \<and> (requestInvoiceDownload (options c) \<and> responseVersion (options c) = 1 \<longrightarrow>
            issueInvoice env c invoice =
              Inr ((summary httpResponse)\<lparr> res_pdf := Some (data httpResponse) \<rparr>))
       \<and> (requestInvoiceDownload (options c) \<and> responseVersion (options c) = 2
            \<and> parseString env (data httpResponse) = Inr doc
            \<and> path_value doc ''xmlszamlavalasz.pdf'' = Some (JStr s) \<longrightarrow>
            issueInvoice env c invoice =
              Inr ((summary httpResponse)\<lparr> res_pdf := Some (base64 env s) \<rparr>))
       \<and> (requestInvoiceDownload (options c) \<and> responseVersion (options c) = 2
            \<and> parseString env (data httpResponse) = Inr doc
            \<and> walk doc [''xmlszamlavalasz'', ''pdf''] = Inr None \<longrightarrow>
            issueInvoice env c invoice = Inl TypeError)"
proof -
  from assms obtain xml where sent: "issueInvoice_xml env c invoice = Inr xml"
    "sendRequest env c ''action-xmlagentxmlfile'' xml (responseVersion (options c) = 1) =
       Inr httpResponse"
    by (auto simp: and_then_def split: sum.splits)
  have none: "issueInvoice env c invoice = Inr (summary httpResponse)"
    if "\<not> requestInvoiceDownload (options c)"
    using sent that by (simp add: issueInvoice_def and_then_def)
  have nokey: "res_pdf (summary httpResponse) = None"
    by (simp add: summary_def)
  have v1: "issueInvoice env c invoice =
      Inr ((summary httpResponse)\<lparr> res_pdf := Some (data httpResponse) \<rparr>)"
    if "requestInvoiceDownload (options c)" "responseVersion (options c) = 1"
    using sent that by (simp add: issueInvoice_def and_then_def)
  have v2: "issueInvoice env c invoice =
      Inr ((summary httpResponse)\<lparr> res_pdf := Some (base64 env s) \<rparr>)"
    if "requestInvoiceDownload (options c)" "responseVersion (options c) = 2"
      "parseString env (data httpResponse) = Inr doc"
      "path_value doc ''xmlszamlavalasz.pdf'' = Some (JStr s)"
  proof -
    from that(4) obtain p where reached: "walk doc (split_dot ''xmlszamlavalasz.pdf'') = Inr (Some p)"
      and first: "getProp p ''0'' = Inr (JStr s)"
      by (auto simp only: path_value_def split: sum.splits option.splits)
    have "project doc [(''xmlszamlavalasz.pdf'', ''pdf'')] Map.empty = Inr [''pdf'' \<mapsto> JStr s]"
      by (simp only: project.simps reached first sum.case option.case)
    with sent that(1-3) show ?thesis
      by (simp add: issueInvoice_def xml2obj_def Buffer_from_base64_def and_then_def
          del: project.simps)
  qed
  have missing: "issueInvoice env c invoice = Inl TypeError"
    if "requestInvoiceDownload (options c)" "responseVersion (options c) = 2"
      "parseString env (data httpResponse) = Inr doc"
      "walk doc [''xmlszamlavalasz'', ''pdf''] = Inr None"
    using sent that
    by (simp add: issueInvoice_def xml2obj_def Buffer_from_base64_def and_then_def)
  from none nokey v1 v2 missing show ?thesis by blast
qed

theorem issueInvoice_pdf_witness:
  "issueInvoice (stub_env pdf_response JNull) token_client (\<lambda>k. ''<fejlec/>'') =
     Inr (summary pdf_response)
   \<and> issueInvoice (stub_env pdf_response JNull) download_client (\<lambda>k. ''<fejlec/>'') =
     Inr ((summary pdf_response)\<lparr> res_pdf := Some ''%PDF-1.4'' \<rparr>)
   \<and> issueInvoice (stub_env xml_response v2_doc) v2_client (\<lambda>k. ''<fejlec/>'') =
     Inr ((summary xml_response)\<lparr> res_pdf := Some ''DJUQ'' \<rparr>)
   \<and> issueInvoice (stub_env xml_response v2_doc_without_pdf) v2_client (\<lambda>k. ''<fejlec/>'') =
     Inl TypeError"
proof -
  have v1: "responseVersion (options token_client) = 1"
      "\<not> requestInvoiceDownload (options token_client)"
      "responseVersion (options download_client) = 1"
      "requestInvoiceDownload (options download_client)"
    by (simp_all add: token_client_def download_client_def setRequestInvoiceDownload_def
        merge_defaults_def token_options_def no_options_def)
  have v2: "responseVersion (options v2_client) = 2" "requestInvoiceDownload (options v2_client)"
    by (simp_all add: v2_client_def merge_defaults_def token_options_def no_options_def)
  have sent: "and_then (issueInvoice_xml env c invoice)
      (\<lambda>xml. sendRequest env c ''action-xmlagentxmlfile'' xml b) = Inr r"
    if "\<And>xml. sendRequest env c ''action-xmlagentxmlfile'' xml b = Inr r" for env c invoice b r
    using issueInvoice_xml_builds [of env c invoice] that by (auto simp: and_then_def)
  have send1: "sendRequest (stub_env pdf_response JNull) c ''action-xmlagentxmlfile'' xml True =
      Inr pdf_response" for c xml
    by (simp add: sendRequest_def sendRequest_body_def stub_env_def pdf_response_def
        error_code_header_def)
  have ok: "status xml_response = 200" "error_code_header xml_response = None"
    by (simp_all add: xml_response_def error_code_header_def)
  have send2: "sendRequest (stub_env xml_response v2_doc) c ''action-xmlagentxmlfile'' xml False =
      Inr xml_response" for c xml
    by (rule sendRequest_passes [OF _ _ ok, where valasz = "JObj [(''sikeres'', JArr [JStr ''true'']),
        (''pdf'', JArr [JStr ''QUJD''])]"]) (simp_all add: v2_doc_def getProp_JObj)
  have send3: "sendRequest (stub_env xml_response v2_doc_without_pdf) c
      ''action-xmlagentxmlfile'' xml False = Inr xml_response" for c xml
    by (rule sendRequest_passes [OF _ _ ok, where valasz = "JObj [(''sikeres'', JArr [JStr ''true''])]"])
      (simp_all add: v2_doc_without_pdf_def getProp_JObj)
  have found: "path_value v2_doc ''xmlszamlavalasz.pdf'' = Some (JStr ''QUJD'')"
    by (simp add: path_value_def v2_doc_def hasOwnProperty_def getProp_JObj getProp_first)
  have absent: "walk v2_doc_without_pdf [''xmlszamlavalasz'', ''pdf''] = Inr None"
    by (simp add: v2_doc_without_pdf_def hasOwnProperty_def getProp_JObj)
  have 1: "issueInvoice (stub_env pdf_response JNull) token_client (\<lambda>k. ''<fejlec/>'') =
     Inr (summary pdf_response)"
    using issueInvoice_pdf [of "stub_env pdf_response JNull" token_client _ pdf_response]
      sent [of "stub_env pdf_response JNull" token_client True pdf_response] send1 v1 by simp
  have 2: "issueInvoice (stub_env pdf_response JNull) download_client (\<lambda>k. ''<fejlec/>'') =
     Inr ((summary pdf_response)\<lparr> res_pdf := Some ''%PDF-1.4'' \<rparr>)"
    using issueInvoice_pdf [of "stub_env pdf_response JNull" download_client _ pdf_response]
      sent [of "stub_env pdf_response JNull" download_client True pdf_response] send1 v1
    by (simp add: pdf_response_def)
  have 3: "issueInvoice (stub_env xml_response v2_doc) v2_client (\<lambda>k. ''<fejlec/>'') =
     Inr ((summary xml_response)\<lparr> res_pdf := Some ''DJUQ'' \<rparr>)"
    using issueInvoice_pdf [of "stub_env xml_response v2_doc" v2_client _ xml_response v2_doc
        "''QUJD''"] sent [of "stub_env xml_response v2_doc" v2_client False xml_response]
      send2 v2 found
    by (simp add: stub_env_def)
  have 4: "issueInvoice (stub_env xml_response v2_doc_without_pdf) v2_client (\<lambda>k. ''<fejlec/>'') =
     Inl TypeError"
    using issueInvoice_pdf [of "stub_env xml_response v2_doc_without_pdf" v2_client _ xml_response
        v2_doc_without_pdf]
      sent [of "stub_env xml_response v2_doc_without_pdf" v2_client False xml_response]
      send3 v2 absent
    by (simp add: stub_env_def)
  from 1 2 3 4 show ?thesis by simp
qed

text \<open>
  C8. When the transport has answered with status 200 and the header check has found no
  error code: a binary download and the request of the credit-entry operation get the
  response back as it is, whatever the parser \<open>p\<close> would do with the body; any other
  response has its body parsed, so that a parser's rejection is the operation's failure,
  a document whose \<open>xmlszamlavalasz\<close> node has a \<open>hibakod\<close> sequence gives an \<open>Error\<close>
  with the text of \<open>hibauzenet\<close> as message and the first \<open>hibakod\<close> as code, and one
  without \<open>hibakod\<close> gives the response back.
\<close>

theorem sendRequest_body_handling:
  assumes "post env \<lparr> fileFieldName = field, content = xml, binary = isBinaryDownload,
                       req_timeout = timeout (options c) \<rparr> = Inr httpResponse"
    and "status httpResponse = 200"
    and "error_code_header httpResponse = None"
  shows "(isBinaryDownload \<or> field = ''action-szamla_agent_kifiz'' \<longrightarrow>
            sendRequest (env\<lparr> parseString := p \<rparr>) c field xml isBinaryDownload = Inr httpResponse)
       \<and> (\<not> isBinaryDownload \<and> field \<noteq> ''action-szamla_agent_kifiz''
            \<and> parseString env (data httpResponse) = Inl e \<longrightarrow>
            sendRequest env c field xml isBinaryDownload = Inl e)
       \<and> (\<not> isBinaryDownload \<and> field \<noteq> ''action-szamla_agent_kifiz''
            \<and> parseString env (data httpResponse) = Inr doc
            \<and> getProp doc ''xmlszamlavalasz'' = Inr (JObj node)
            \<and> map_of node ''hibakod'' = Some (JArr kod) \<longrightarrow>
            sendRequest env c field xml isBinaryDownload =
              Inl (Error
                (error_message (numbers env)
                   (case map_of node ''hibauzenet'' of None \<Rightarrow> JUndefined | Some v \<Rightarrow> v))
                (case kod of [] \<Rightarrow> JUndefined | k # ks \<Rightarrow> k)))
       \<and> (\<not> isBinaryDownload \<and> field \<noteq> ''action-szamla_agent_kifiz''
            \<and> parseString env (data httpResponse) = Inr doc
            \<and> getProp doc ''xmlszamlavalasz'' = Inr (JObj node)
            \<and> map_of node ''hibakod'' = None \<longrightarrow>
            sendRequest env c field xml isBinaryDownload = Inr httpResponse)"
proof -
  have send: "sendRequest env' c field xml isBinaryDownload =
      sendRequest_body env' field isBinaryDownload httpResponse"
    if "post env' = post env" for env'
    using assms that by (simp add: sendRequest_def)
  have a: "sendRequest_body (env\<lparr> parseString := p \<rparr>) field isBinaryDownload httpResponse =
      Inr httpResponse"
    if "isBinaryDownload \<or> field = ''action-szamla_agent_kifiz''"
    using that by (simp add: sendRequest_body_def)
  have b: "sendRequest_body env field isBinaryDownload httpResponse = Inl e"
    if "\<not> isBinaryDownload" "field \<noteq> ''action-szamla_agent_kifiz''"
      "parseString env (data httpResponse) = Inl e"
    using that by (simp add: sendRequest_body_def)
  have c: "sendRequest_body env field isBinaryDownload httpResponse =
      Inl (Error
        (error_message (numbers env)
           (case map_of node ''hibauzenet'' of None \<Rightarrow> JUndefined | Some v \<Rightarrow> v))
        (case kod of [] \<Rightarrow> JUndefined | k # ks \<Rightarrow> k))"
    if "\<not> isBinaryDownload" "field \<noteq> ''action-szamla_agent_kifiz''"
      "parseString env (data httpResponse) = Inr doc"
      "getProp doc ''xmlszamlavalasz'' = Inr (JObj node)"
      "map_of node ''hibakod'' = Some (JArr kod)"
    using that
    by (cases kod) (simp_all add: sendRequest_body_def getProp_JObj getProp_first truthy_def)
  have d: "sendRequest_body env field isBinaryDownload httpResponse = Inr httpResponse"
    if "\<not> isBinaryDownload" "field \<noteq> ''action-szamla_agent_kifiz''"
      "parseString env (data httpResponse) = Inr doc"
      "getProp doc ''xmlszamlavalasz'' = Inr (JObj node)"
      "map_of node ''hibakod'' = None"
    using that by (simp add: sendRequest_body_def getProp_JObj truthy_def)
  have s1: "sendRequest (env\<lparr> parseString := p \<rparr>) c field xml isBinaryDownload =
      sendRequest_body (env\<lparr> parseString := p \<rparr>) field isBinaryDownload httpResponse"
    by (rule send) simp
  have s2: "sendRequest env c field xml isBinaryDownload =
      sendRequest_body env field isBinaryDownload httpResponse"
    by (rule send) simp
  show ?thesis
    unfolding s1 s2 using a b c d by blast
qed

theorem sendRequest_body_handling_witness:
  "sendRequest ((stub_env pdf_response JNull)\<lparr> parseString := no_parser \<rparr>) user_client
       ''action-szamla_agent_st'' ''<xmlszamlast/>'' True = Inr pdf_response
   \<and> sendRequest ((stub_env pdf_response JNull)\<lparr> parseString := no_parser \<rparr>) user_client
       ''action-szamla_agent_kifiz'' ''<xmlszamlakifiz/>'' False = Inr pdf_response
   \<and> sendRequest ((stub_env pdf_response JNull)\<lparr> parseString := no_parser \<rparr>) user_client
       ''action-szamla_agent_xml'' ''<xmlszamlaxml/>'' False = Inl (ParseError ''not XML'')
   \<and> sendRequest (stub_env xml_response error_doc) user_client
       ''action-szamla_agent_xml'' ''<xmlszamlaxml/>'' False = Inl (Error ''Hiba'' (JStr ''57''))
   \<and> sendRequest (stub_env xml_response v2_doc) user_client
       ''action-szamla_agent_xml'' ''<xmlszamlaxml/>'' False = Inr xml_response"
proof -
  have answer: "post (stub_env r d) req = Inr r"
      "post ((stub_env r d)\<lparr> parseString := q \<rparr>) req = Inr r" for r d q req
    by (simp_all add: stub_env_def)
  have ok: "status pdf_response = 200" "error_code_header pdf_response = None"
      "status xml_response = 200" "error_code_header xml_response = None"
    by (simp_all add: pdf_response_def xml_response_def error_code_header_def)
  have 1: "sendRequest ((stub_env pdf_response JNull)\<lparr> parseString := no_parser \<rparr>) user_client
       ''action-szamla_agent_st'' ''<xmlszamlast/>'' True = Inr pdf_response"
    using sendRequest_body_handling [OF answer(1) ok(1,2),
        where p = no_parser and isBinaryDownload = True] by simp
  have 2: "sendRequest ((stub_env pdf_response JNull)\<lparr> parseString := no_parser \<rparr>) user_client
       ''action-szamla_agent_kifiz'' ''<xmlszamlakifiz/>'' False = Inr pdf_response"
    using sendRequest_body_handling [OF answer(1) ok(1,2),
        where p = no_parser and field = "''action-szamla_agent_kifiz''"] by simp
  have 3: "sendRequest ((stub_env pdf_response JNull)\<lparr> parseString := no_parser \<rparr>) user_client
       ''action-szamla_agent_xml'' ''<xmlszamlaxml/>'' False = Inl (ParseError ''not XML'')"
    using sendRequest_body_handling [OF answer(2) ok(1,2),
        where q1 = no_parser and field = "''action-szamla_agent_xml''"
          and isBinaryDownload = False and e = "ParseError ''not XML''"]
    by (simp add: no_parser_def)
  have 4: "sendRequest (stub_env xml_response error_doc) user_client
       ''action-szamla_agent_xml'' ''<xmlszamlaxml/>'' False = Inl (Error ''Hiba'' (JStr ''57''))"
    using sendRequest_body_handling [OF answer(1) ok(3,4),
        where d1 = error_doc and field = "''action-szamla_agent_xml''"
          and isBinaryDownload = False and doc = error_doc
          and node = "[(''sikeres'', JArr [JStr ''false'']), (''hibakod'', JArr [JStr ''57'']),
             (''hibauzenet'', JArr [JStr ''Hiba''])]"
          and kod = "[JStr ''57'']"]
    by (simp add: stub_env_def error_doc_def getProp_JObj error_message_def)
  have 5: "sendRequest (stub_env xml_response v2_doc) user_client
       ''action-szamla_agent_xml'' ''<xmlszamlaxml/>'' False = Inr xml_response"
    using sendRequest_body_handling [OF answer(1) ok(3,4),
        where d1 = v2_doc and field = "''action-szamla_agent_xml''"
          and isBinaryDownload = False and doc = v2_doc
          and node = "[(''sikeres'', JArr [JStr ''true'']), (''pdf'', JArr [JStr ''QUJD''])]"]
    by (simp add: stub_env_def v2_doc_def getProp_JObj)
  from 1 2 3 4 5 show ?thesis by simp
qed

section \<open>The place of the auth fields\<close>

text \<open>
  C9, as the specification states it: in every request document the auth fields are the
  first children of the settings element, which comes first. It does not hold for
  \<open>getInvoiceData\<close>, whose document has no settings element: the auth fields follow the
  header directly.
\<close>
theorem getInvoiceData_no_settings_counterexample:
  "getInvoiceData_xml (stub_env pdf_response JNull) user_client invoice_options =
     Inr (getXmlHeader ''xmlszamlaxml'' ''agentxml'' @
          ''  <felhasznalo>demo</felhasznalo>'' @ [nl] @
          ''  <jelszo>secret</jelszo>'' @ [nl] @
          ''  <szamlaszam>E-2024-1</szamlaszam>'' @ [nl] @
          ''</xmlszamlaxml>'')
   \<and> \<not> auth_first_in_settings (getXmlHeader ''xmlszamlaxml'' ''agentxml'') user_client
       (getInvoiceData_xml (stub_env pdf_response JNull) user_client invoice_options)"
proof -
  have built: "getInvoiceData_xml (stub_env pdf_response JNull) user_client invoice_options =
     Inr (getXmlHeader ''xmlszamlaxml'' ''agentxml'' @
          ''  <felhasznalo>demo</felhasznalo>'' @ [nl] @
          ''  <jelszo>secret</jelszo>'' @ [nl] @
          ''  <szamlaszam>E-2024-1</szamlaszam>'' @ [nl] @
          ''</xmlszamlaxml>'')"
    unfolding getInvoiceData_xml_def
    by (simp add: wrap_Items_Undefined wrap_Name_level getAuthFields_def and_then_def
        element_def indent_1 content_text_def scalar_text_def
        user_client_def merge_defaults_def user_options_def no_options_def
        invoice_options_def no_call_options_def escapeXMLString_def replaceXMLChar_def)
  have "\<not> auth_first_in_settings (getXmlHeader ''xmlszamlaxml'' ''agentxml'') user_client
       (getInvoiceData_xml (stub_env pdf_response JNull) user_client invoice_options)"
    unfolding built auth_first_in_settings_def begins_with_def
    by simp
  with built show ?thesis by simp
qed

text \<open>
  C9, amended: for a client the constructor has returned, the auth fields (a single
  \<open>szamlaagentkulcs\<close> element in token mode, else \<open>felhasznalo\<close> followed by \<open>jelszo\<close>)
  are the first elements after the header of every request document; in the documents of
  \<open>reverseInvoice\<close>, \<open>issueInvoice\<close>, \<open>queryTaxPayer\<close> and \<open>registerCreditEntry\<close> they are
  the first children of the settings element \<open>beallitasok\<close>, which comes first; the
  document of \<open>getInvoiceData\<close> has no settings element and they are the first children
  of the root.
\<close>
theorem auth_fields_first:
  assumes "Client_constructor a = Inr c"
  shows "auth_first_in_settings (getXmlHeader ''xmlszamlast'' ''agentst'') c
           (reverseInvoice_xml env c opts)
       \<and> auth_first_in_settings (getXmlHeader ''xmlszamla'' ''agent'') c
           (issueInvoice_xml env c invoice)
       \<and> auth_first_in_settings (getXmlHeader ''xmltaxpayer'' ''agent'') c
           (queryTaxPayer_xml env c taxPayerId)
       \<and> auth_first_in_settings (getXmlHeader ''xmlszamlakifiz'' ''agentkifiz'') c
           (registerCreditEntry_xml env c opts g es)
       \<and> begins_with (getXmlHeader ''xmlszamlaxml'' ''agentxml'' @ auth_elements c 1)
           (getInvoiceData_xml env c opts)"
proof -
  have nonempty: "getAuthFields c @ rest \<noteq> []" for rest
    by (simp add: getAuthFields_def)
  have children: "\<exists>others. collect (map (\<lambda>item. wrapWithElement t (Name (fst item)) (snd item)
      (Some (Fin 1))) (getAuthFields c @ rest)) = Inr (auth_elements c 1 @ others)" for t rest
    using items_build [OF whole_small(1), of t rest] auth_items [OF assms, of 1 t rest]
    by (auto simp: and_then_def)
  have settings: "\<exists>others. wrapWithElement t (Name ''beallitasok'') (ArrV (getAuthFields c @ rest))
      (Some (Fin 1)) = Inr (''  <beallitasok>'' @ [nl] @ auth_elements c 2 @ others)" for t rest
    using settings_first [OF assms, of 1 t rest] by (simp add: safe_small indent_1)
  have 1: "begins_with (getXmlHeader ''xmlszamlast'' ''agentst'' @ ''<beallitasok>'' @ [nl]
             @ auth_elements c 1) (reverseInvoice_xml env c opts)"
  proof -
    from children obtain others where "collect (map (\<lambda>item. wrapWithElement (numbers env)
        (Name (fst item)) (snd item) (Some (Fin 1)))
        (getAuthFields c @ [(''eszamla'', flag_text (opt_eInvoice opts)),
          (''szamlaLetoltes'', flag_text (opt_requestInvoiceDownload opts))])) =
        Inr (auth_elements c 1 @ others)"
      by blast
    moreover from wrap_builds_array obtain head where
      "wrapWithElement (numbers env) (Name ''fejlec'')
         (ArrV [(''szamlaszam'', opt_invoiceId opts), (''keltDatum'', DateV (now env))]) None =
       Inr head"
      by blast
    ultimately show ?thesis
      unfolding reverseInvoice_xml_def begins_with_def
      by (simp add: wrap_Name_array [OF nonempty] and_then_def del: map_append)
  qed
  have 2: "begins_with (getXmlHeader ''xmlszamla'' ''agent'' @ ''  <beallitasok>'' @ [nl]
             @ auth_elements c 2) (issueInvoice_xml env c invoice)"
  proof -
    from settings obtain others where "wrapWithElement (numbers env) (Name ''beallitasok'')
        (ArrV (getAuthFields c @
          [(''eszamla'', BoolV (eInvoice (options c))),
           (''szamlaLetoltes'', BoolV (requestInvoiceDownload (options c))),
           (''szamlaLetoltesPld'', NumV (Fin (of_int (downloadedInvoiceCount (options c))))),
           (''valaszVerzio'', NumV (Fin (of_int (responseVersion (options c)))))]))
        (Some (Fin 1)) = Inr (''  <beallitasok>'' @ [nl] @ auth_elements c 2 @ others)"
      by blast
    then show ?thesis
      unfolding issueInvoice_xml_def begins_with_def by (simp add: and_then_def)
  qed
  have 3: "begins_with (getXmlHeader ''xmltaxpayer'' ''agent'' @ ''  <beallitasok>'' @ [nl]
             @ auth_elements c 2) (queryTaxPayer_xml env c taxPayerId)"
  proof -
    from settings [of _ "[]"] obtain others where "wrapWithElement (numbers env)
        (Name ''beallitasok'') (ArrV (getAuthFields c)) (Some (Fin 1)) =
        Inr (''  <beallitasok>'' @ [nl] @ auth_elements c 2 @ others)"
      by auto
    moreover from one_level obtain number where
      "wrapWithElement (numbers env) (Name ''torzsszam'') taxPayerId (Some (Fin 1)) = Inr number"
      by blast
    ultimately show ?thesis
      unfolding queryTaxPayer_xml_def begins_with_def by (simp add: and_then_def)
  qed
  have 4: "begins_with (getXmlHeader ''xmlszamlakifiz'' ''agentkifiz'' @ ''  <beallitasok>'' @ [nl]
             @ auth_elements c 2) (registerCreditEntry_xml env c opts g es)"
  proof -
    from settings obtain others where "wrapWithElement (numbers env) (Name ''beallitasok'')
        (ArrV (getAuthFields c @
          [(''szamlaszam'', opt_invoiceId opts),
           (''adoszam'', or_data (opt_taxNumber opts) (StrV [])),
           (''additiv'', StrV (show_bool (or_flag (opt_additive opts) True)))]))
        (Some (Fin 1)) = Inr (''  <beallitasok>'' @ [nl] @ auth_elements c 2 @ others)"
      by blast
    then show ?thesis
      unfolding registerCreditEntry_xml_def begins_with_def by (simp add: and_then_def)
  qed
  have 5: "begins_with (getXmlHeader ''xmlszamlaxml'' ''agentxml'' @ auth_elements c 1)
           (getInvoiceData_xml env c opts)"
  proof -
    from children obtain others where "collect (map (\<lambda>item. wrapWithElement (numbers env)
        (Name (fst item)) (snd item) (Some (Fin 1)))
        (getAuthFields c @ [(''szamlaszam'', opt_invoiceId opts),
          (''rendelesSzam'', opt_orderNumber opts), (''pdf'', opt_pdf opts)])) =
        Inr (auth_elements c 1 @ others)"
      by blast
    then show ?thesis
      unfolding getInvoiceData_xml_def begins_with_def
      by (simp add: wrap_Items_Undefined and_then_def del: map_append)
  qed
  from 1 2 3 4 5 show ?thesis
    unfolding auth_first_in_settings_def by blast
qed

theorem auth_fields_first_witness:
  "auth_first_in_settings (getXmlHeader ''xmlszamlast'' ''agentst'') user_client
       (reverseInvoice_xml (stub_env pdf_response JNull) user_client reverse_options)
   \<and> auth_first_in_settings (getXmlHeader ''xmlszamla'' ''agent'') token_client
       (issueInvoice_xml (stub_env pdf_response JNull) token_client (\<lambda>k. ''<fejlec/>''))
   \<and> auth_elements user_client 1 =
       ''  <felhasznalo>demo</felhasznalo>'' @ [nl] @ ''  <jelszo>secret</jelszo>'' @ [nl]
   \<and> auth_elements token_client 2 = ''    <szamlaagentkulcs>token</szamlaagentkulcs>'' @ [nl]
   \<and> begins_with (getXmlHeader ''xmlszamlaxml'' ''agentxml'' @ auth_elements user_client 1)
       (getInvoiceData_xml (stub_env pdf_response JNull) user_client invoice_options)"
proof -
  have user_elements: "auth_elements user_client 1 =
      ''  <felhasznalo>demo</felhasznalo>'' @ [nl] @ ''  <jelszo>secret</jelszo>'' @ [nl]"
    by (simp add: auth_elements_def element_def indent_1 user_client_def merge_defaults_def
        user_options_def no_options_def credential_text_def escapeXMLString_def replaceXMLChar_def)
  have token_elements: "auth_elements token_client 2 =
      ''    <szamlaagentkulcs>token</szamlaagentkulcs>'' @ [nl]"
    by (simp add: auth_elements_def element_def indent_2 token_client_def merge_defaults_def
        token_options_def no_options_def credential_text_def escapeXMLString_def replaceXMLChar_def)
  from auth_fields_first [OF user_client_constructed,
      where env = "stub_env pdf_response JNull" and opts = reverse_options]
  have "auth_first_in_settings (getXmlHeader ''xmlszamlast'' ''agentst'') user_client
       (reverseInvoice_xml (stub_env pdf_response JNull) user_client reverse_options)"
    by blast
  moreover from auth_fields_first [OF token_client_constructed,
      where env = "stub_env pdf_response JNull" and invoice = "\<lambda>k. ''<fejlec/>''"]
  have "auth_first_in_settings (getXmlHeader ''xmlszamla'' ''agent'') token_client
       (issueInvoice_xml (stub_env pdf_response JNull) token_client (\<lambda>k. ''<fejlec/>''))"
    by blast
  moreover from auth_fields_first [OF user_client_constructed,
      where env = "stub_env pdf_response JNull" and opts = invoice_options]
  have "begins_with (getXmlHeader ''xmlszamlaxml'' ''agentxml'' @ auth_elements user_client 1)
       (getInvoiceData_xml (stub_env pdf_response JNull) user_client invoice_options)"
    by blast
  ultimately show ?thesis
    using user_elements token_elements by blast
qed

section \<open>The indent level of numeric content\<close>

text \<open>
  C10, as the specification states it: with the indent level omitted and content that
  converts to a positive number, the element is rendered \<open>Number(data)\<close> levels deep. It
  does not hold for every positive number: the content \<open>2.5\<close> is rendered three levels
  deep, one level for each turn of the loop in \<open>pad\<close>; and with the content
  \<open>Infinity\<close> the loop has no last turn, and the call ends with a \<open>RangeError\<close>.
\<close>

theorem wrapWithElement_fractional_counterexample:
  "Number example_numbers (NumV (Fin (5 / 2))) = Fin (5 / 2)
   \<and> wrapWithElement example_numbers (Name ''ar'') (NumV (Fin (5 / 2))) None =
       Inr (''      <ar>2.5</ar>'' @ [nl])
   \<and> Number example_numbers (NumV PInf) = PInf
   \<and> wrapWithElement example_numbers (Name ''ar'') (NumV PInf) None = Inl RangeError"
proof -
  have three: "\<lceil>5 / 2 :: rat\<rceil> = 3" by (simp add: ceiling_eq_iff)
  have "pad (Fin (5 / 2)) None = Inr ''      ''"
    by (simp add: pad_Fin three indent_def eval_nat_numeral)
  moreover have "\<lfloor>5 / 2 :: rat\<rfloor> = 2" by (simp add: floor_eq_iff)
  then have "scalar_text example_numbers (NumV (Fin (5 / 2))) = ''2.5''"
    by (simp add: scalar_text_def show_num_def safe_integer_def example_numbers_def)
  ultimately have fractional:
    "wrapWithElement example_numbers (Name ''ar'') (NumV (Fin (5 / 2))) None =
       Inr (''      <ar>2.5</ar>'' @ [nl])"
    by (simp add: wrapWithElement.simps [of _ "Name ''ar''"] Number_def or_num_def truthy_num_def
        escapeXMLString_def replaceXMLChar_def)
  have "pad PInf None = Inl RangeError"
    by (rule pad_beyond) (simp add: less_num_def)
  then have infinite: "wrapWithElement example_numbers (Name ''ar'') (NumV PInf) None =
      Inl RangeError"
    by (simp add: wrapWithElement.simps [of _ "Name ''ar''"] Number_def or_num_def truthy_num_def)
  from fractional infinite show ?thesis
    by (simp add: Number_def)
qed

text \<open>
  C10, amended. When \<open>wrapWithElement(name, data)\<close> is called with an element name,
  without an indent level, and \<open>Number(data)\<close> is a positive finite number \<open>r\<close>, the
  element is rendered \<open>\<lceil>r\<rceil>\<close> levels deep, which is \<open>r\<close> itself for a whole number:
  the content doubles as the indent level. An explicit level of 0 counts as omitted; an
  explicit positive level \<open>l\<close> renders the same element \<open>\<lceil>l\<rceil>\<close> levels deep, whatever
  the content. Each time this is for an element that is no longer than the longest string
  of the engine, which is shorter than \<open>2^53\<close> characters.
\<close>

theorem wrapWithElement_numeric_content:
  assumes "Number t val = Fin r" and "0 < r" and "maxStringLength t < 2 ^ 53"
  shows "(length (element \<lceil>r\<rceil> nm (content_text t val)) \<le> maxStringLength t \<longrightarrow>
            wrapWithElement t (Name nm) val None =
              Inr (element \<lceil>r\<rceil> nm (content_text t val)))
       \<and> wrapWithElement t (Name nm) val (Some (Fin 0)) = wrapWithElement t (Name nm) val None
       \<and> (0 < l \<and> length (element \<lceil>l\<rceil> nm (content_text t val)) \<le> maxStringLength t \<longrightarrow>
            wrapWithElement t (Name nm) val (Some (Fin l)) =
              Inr (element \<lceil>l\<rceil> nm (content_text t val)))"
proof -
  from assms(1,2) have scalar: "val \<noteq> Undefined" "val \<noteq> Null" "\<And>items. val \<noteq> ArrV items"
    by (auto simp: Number_def split: if_splits)
  have omitted:
    "wrapWithElement t (Name nm) val None = Inr (element \<lceil>r\<rceil> nm (content_text t val))"
    if "length (element \<lceil>r\<rceil> nm (content_text t val)) \<le> maxStringLength t"
  proof -
    have "r \<le> 2 ^ 53"
      using level_within [OF that assms(3)] .
    with assms(1,2) show ?thesis
      by (cases val)
        (simp_all add: wrapWithElement.simps [of _ "Name nm"] Number_def or_num_def
          truthy_num_def pad_Fin element_def content_text_def split: if_splits)
  qed
  have zero:
    "wrapWithElement t (Name nm) val (Some (Fin 0)) = wrapWithElement t (Name nm) val None"
    by (simp add: wrapWithElement.simps [of _ "Name nm"] or_num_def truthy_num_def)
  have explicit: "wrapWithElement t (Name nm) val (Some (Fin l)) =
      Inr (element \<lceil>l\<rceil> nm (content_text t val))"
    if "0 < l" "length (element \<lceil>l\<rceil> nm (content_text t val)) \<le> maxStringLength t"
  proof -
    have "l \<le> 2 ^ 53"
      using level_within [OF that(2) assms(3)] .
    with that(1) scalar show ?thesis
      by (cases val) (auto simp: wrap_Name_level)
  qed
  from omitted zero explicit show ?thesis by blast
qed

theorem wrapWithElement_numeric_content_witness:
  "wrapWithElement example_numbers (Name ''tetelszam'') (NumV (Fin 3)) None =
     Inr (''      <tetelszam>3</tetelszam>'' @ [nl])
   \<and> wrapWithElement example_numbers (Name ''tetelszam'') (NumV (Fin 3)) (Some (Fin 0)) =
     Inr (''      <tetelszam>3</tetelszam>'' @ [nl])
   \<and> wrapWithElement example_numbers (Name ''tetelszam'') (NumV (Fin 3)) (Some (Fin 1)) =
     Inr (''  <tetelszam>3</tetelszam>'' @ [nl])
   \<and> wrapWithElement example_numbers (Name ''ar'') (NumV (Fin (5 / 2))) None =
     Inr (''      <ar>2.5</ar>'' @ [nl])
   \<and> wrapWithElement example_numbers (Name ''ar'') (NumV (Fin (5 / 2))) (Some (Fin (3 / 2))) =
     Inr (''    <ar>2.5</ar>'' @ [nl])"
proof -
  have number: "Number example_numbers (NumV (Fin 3)) = Fin 3" and positive: "(0::rat) < 3"
    and fraction: "Number example_numbers (NumV (Fin (5 / 2))) = Fin (5 / 2)" "(0::rat) < 5 / 2"
    by (simp_all add: Number_def)
  have limit: "maxStringLength example_numbers < 2 ^ 53"
    and longest: "maxStringLength example_numbers = 536870888"
    by (simp_all add: example_numbers_def)
  have content: "content_text example_numbers (NumV (Fin 3)) = ''3''"
    by (simp add: content_text_def scalar_text_def show_num_def safe_integer_def show_int_def
        show_nat.simps digit_char_def escapeXMLString_def replaceXMLChar_def)
  have "\<lfloor>5 / 2 :: rat\<rfloor> = 2" by (simp add: floor_eq_iff)
  then have content': "content_text example_numbers (NumV (Fin (5 / 2))) = ''2.5''"
    by (simp add: content_text_def scalar_text_def show_num_def safe_integer_def
        example_numbers_def escapeXMLString_def replaceXMLChar_def)
  have levels: "\<lceil>5 / 2 :: rat\<rceil> = 3" "\<lceil>3 / 2 :: rat\<rceil> = 2"
    by (simp_all add: ceiling_eq_iff)
  have three: "indent 3 = ''      ''"
    by (simp add: indent_def eval_nat_numeral)
  have fits:
    "length (element \<lceil>3 :: rat\<rceil> ''tetelszam'' (content_text example_numbers (NumV (Fin 3))))
       \<le> maxStringLength example_numbers"
    "length (element \<lceil>1 :: rat\<rceil> ''tetelszam'' (content_text example_numbers (NumV (Fin 3))))
       \<le> maxStringLength example_numbers"
    "length (element \<lceil>5 / 2 :: rat\<rceil> ''ar''
               (content_text example_numbers (NumV (Fin (5 / 2)))))
       \<le> maxStringLength example_numbers"
    "length (element \<lceil>3 / 2 :: rat\<rceil> ''ar''
               (content_text example_numbers (NumV (Fin (5 / 2)))))
       \<le> maxStringLength example_numbers"
    by (simp_all add: content content' levels element_def three indent_1 indent_2 longest)
  from wrapWithElement_numeric_content [OF number positive limit, of "''tetelszam''" 1]
    wrapWithElement_numeric_content [OF fraction limit, of "''ar''" "3 / 2"]
    fits content content' levels three
  show ?thesis
    by (simp add: element_def indent_1 indent_2)
qed

end
